theory Spec2Isabelle
  imports Complex_Main "HOL-Library.Multiset" "HOL-Library.Log_Nat"
begin

section \<open>Numbers and dates\<close>

text \<open>
  A JavaScript number is an IEEE 754 double. The model holds a finite double as the
  rational number it denotes, and an arithmetic operation of the code as the exact
  operation followed by the rounding \<open>fl\<close> to the nearest double, a tie going to the even
  significand (53 bits, the least exponent that of the subnormal numbers). A decimal
  column and a decimal literal are read as the nearest double, which is \<open>fl\<close> of the decimal.

  An \<^verbatim>\<open>INTEGER\<close> column holds 32 bits and is read exactly; sums and differences of
  calorie counts are sums and differences of integers, which are exact in doubles, and are
  written as integer arithmetic. The comparison of a decimal column with an integer
  literal is written on the decimal, and the two quotients of the weekly balance as exact
  quotients: the lemmas \<open>decimal_gt_in_doubles\<close> and \<open>weekly_quotients_in_doubles\<close> show
  that the doubles give the same outcome.

  Only the finite doubles are modelled: there is no infinity and no NaN. The columns are
  \<^verbatim>\<open>INTEGER\<close> and \<^verbatim>\<open>DECIMAL(p, 2)\<close> with at most 8 digits, so the products, sums and
  quotients that the code forms of them stay inside the finite range by hundreds of orders
  of magnitude, and the divisors are guarded against 0.
\<close>

definition round_even :: "rat \<Rightarrow> int" where
  "round_even x =
     (let f = \<lfloor>x\<rfloor>; r = x - of_int f
      in if r < 1 / 2 then f else if 1 / 2 < r then f + 1 else if even f then f else f + 1)"

text \<open>
  The binary exponent of a number other than 0: the \<open>e\<close> with \<open>2 powi e \<le> \<bar>x\<bar>\<close> and
  \<open>\<bar>x\<bar> < 2 powi (e + 1)\<close>.
\<close>

definition exponent :: "rat \<Rightarrow> int" where
  "exponent x =
     (case quotient_of \<bar>x\<bar> of (p, q) \<Rightarrow>
        (let k = bitlen p - bitlen q in if 2 powi k \<le> \<bar>x\<bar> then k else k - 1))"

definition fl :: "rat \<Rightarrow> rat" where
  "fl x =
     (if x = 0 then 0
      else (let e = max (exponent x) (- 1022); ulp = 2 powi (e - 52)
            in of_int (round_even (x / ulp)) * ulp))"

text \<open>The operators \<^verbatim>\<open>+\<close>, \<^verbatim>\<open>-\<close>, \<^verbatim>\<open>*\<close> and \<^verbatim>\<open>/\<close> on two numbers.\<close>

definition fadd :: "rat \<Rightarrow> rat \<Rightarrow> rat" where
  "fadd x y = fl (x + y)"

definition fsub :: "rat \<Rightarrow> rat \<Rightarrow> rat" where
  "fsub x y = fl (x - y)"

definition fmul :: "rat \<Rightarrow> rat \<Rightarrow> rat" where
  "fmul x y = fl (x * y)"

definition fdiv :: "rat \<Rightarrow> rat \<Rightarrow> rat" where
  "fdiv x y = fl (x / y)"

text \<open>
  \<^verbatim>\<open>Math.round\<close> gives the integer nearest to its argument, a tie going towards plus
  infinity.
\<close>

definition js_round :: "rat \<Rightarrow> int" where
  "js_round x = \<lfloor>x + 1 / 2\<rfloor>"

text \<open>
  A \<^verbatim>\<open>Date\<close> is its number of milliseconds since the epoch; only valid dates are modelled
  (the routes answer 400 on an invalid one before they call the service). The server's
  zone is a fixed offset \<open>tz\<close> in milliseconds, so every local day has 86400000 of them.
\<close>

definition ms_per_day :: int where
  "ms_per_day = 86400000"

definition startOfDay :: "int \<Rightarrow> int \<Rightarrow> int" where
  "startOfDay tz d = d - (d + tz) mod ms_per_day"

definition endOfDay :: "int \<Rightarrow> int \<Rightarrow> int" where
  "endOfDay tz d = startOfDay tz d + (ms_per_day - 1)"

definition addDays :: "int \<Rightarrow> int \<Rightarrow> int" where
  "addDays d i = d + i * ms_per_day"

definition isoDay :: "int \<Rightarrow> int" where
  "isoDay d = d div ms_per_day"

section \<open>Data model\<close>

datatype activity = sedentary | lightly_active | moderately_active | very_active | extremely_active

datatype goal = lose_weight | maintain_weight | gain_weight | build_muscle | improve_fitness

datatype category = cardio | strength | flexibility | sports | functional

datatype difficulty = beginner | intermediate | advanced

datatype meal = breakfast | lunch | dinner | snack

record user =
  user_pk :: int
  firebase_uid :: string
  activity_level :: "activity option"
  fitness_goal :: "goal option"
  daily_calorie_goal :: "int option"

text \<open>
  The value a controller writes into a \<^verbatim>\<open>user_id\<close> column: the integer key of the
  users table, or a Firebase uid string. The model keeps the value as it was written, as
  a database does that does not check the declared \<^verbatim>\<open>INTEGER\<close> foreign key. A database
  that checks it rejects a row with a uid string; then the table stays as it was.
\<close>

datatype key = IntKey int | StrKey string

record calorie_entry =
  ce_user_id :: key
  food_name :: string
  calories_per_serving :: int
  servings_consumed :: rat
  meal_type :: meal
  consumed_at :: int

record exercise =
  ex_id :: int
  ex_name :: string
  ex_category :: category
  difficulty_level :: difficulty
  calories_per_minute :: "rat option"
  muscle_groups :: "string list"
  is_active :: bool

record user_exercise =
  ue_user_id :: int
  exercise_id :: int
  duration_minutes :: "int option"
  sets :: "int option"
  reps :: "int option"
  weight_kg :: "rat option"
  distance_km :: "rat option"
  calories_burned :: "int option"
  performed_at :: int
  rating :: "int option"

text \<open>
  The database: its four tables, and whether it can be reached. A query on a database
  that cannot be reached raises, which the services catch and wrap.
\<close>

record db =
  reachable :: bool
  users :: "user list"
  calorie_entries :: "calorie_entry list"
  user_exercises :: "user_exercise list"
  exercises :: "exercise list"

text \<open>
  The errors that the code raises or catches. \<open>NotAFunction m\<close> is the \<^verbatim>\<open>TypeError\<close> of a
  call \<^verbatim>\<open>this.m(...)\<close> to a method \<open>m\<close> that the class does not define; the other
  constructors with an argument are the errors that wrap a caught one.
\<close>

datatype error =
    DbFailure
  | UserNotFound
  | NotAFunction string
  | FoodCaloriesError error
  | ExerciseCaloriesError error
  | DailyBalanceError error
  | WeeklyBalanceError error
  | AIRecommendationError error

definition Users_findOne :: "db \<Rightarrow> string \<Rightarrow> error + user option" where
  "Users_findOne d uid =
     (if reachable d then Inr (find (\<lambda>u. firebase_uid u = uid) (users d)) else Inl DbFailure)"

text \<open>The virtual field \<^verbatim>\<open>total_calories\<close> of a food entry.\<close>

definition total_calories :: "calorie_entry \<Rightarrow> int" where
  "total_calories e =
     js_round (fmul (of_int (calories_per_serving e)) (fl (servings_consumed e)))"

section \<open>The calorie tracking service\<close>

definition foodEntriesOfDay :: "int \<Rightarrow> db \<Rightarrow> user \<Rightarrow> int \<Rightarrow> calorie_entry list" where
  "foodEntriesOfDay tz d u dt =
     filter (\<lambda>e. ce_user_id e = IntKey (user_pk u)
                 \<and> startOfDay tz dt \<le> consumed_at e \<and> consumed_at e \<le> endOfDay tz dt)
       (calorie_entries d)"

definition getDailyFoodCalories :: "int \<Rightarrow> db \<Rightarrow> string \<Rightarrow> int \<Rightarrow> error + int" where
  "getDailyFoodCalories tz d userId dt =
     (case Users_findOne d userId of
        Inl e \<Rightarrow> Inl (FoodCaloriesError e)
      | Inr None \<Rightarrow> Inr 0
      | Inr (Some u) \<Rightarrow>
          (let foodEntries = foodEntriesOfDay tz d u dt;
               totalFoodCalories =
                 foldl (\<lambda>total entry.
                          fadd total (fmul (of_int (calories_per_serving entry))
                                        (fl (servings_consumed entry))))
                   0 foodEntries
           in Inr (js_round totalFoodCalories)))"

definition exerciseEntriesOfDay :: "int \<Rightarrow> db \<Rightarrow> user \<Rightarrow> int \<Rightarrow> user_exercise list" where
  "exerciseEntriesOfDay tz d u dt =
     filter (\<lambda>e. ue_user_id e = user_pk u
                 \<and> startOfDay tz dt \<le> performed_at e \<and> performed_at e \<le> endOfDay tz dt)
       (user_exercises d)"

definition getDailyExerciseCalories :: "int \<Rightarrow> db \<Rightarrow> string \<Rightarrow> int \<Rightarrow> error + int" where
  "getDailyExerciseCalories tz d userId dt =
     (case Users_findOne d userId of
        Inl e \<Rightarrow> Inl (ExerciseCaloriesError e)
      | Inr None \<Rightarrow> Inr 0
      | Inr (Some u) \<Rightarrow>
          (let exerciseEntries = exerciseEntriesOfDay tz d u dt;
               totalExerciseCalories =
                 foldl (\<lambda>total entry.
                          total + (case calories_burned entry of None \<Rightarrow> 0 | Some c \<Rightarrow> c))
                   0 exerciseEntries
           in Inr (js_round (of_int totalExerciseCalories))))"

text \<open>A missing user, a missing goal, a goal of 0 and a failed query all give 0.\<close>

definition getUserDailyGoal :: "db \<Rightarrow> string \<Rightarrow> int" where
  "getUserDailyGoal d userId =
     (case Users_findOne d userId of
        Inl e \<Rightarrow> 0
      | Inr None \<Rightarrow> 0
      | Inr (Some u) \<Rightarrow>
          (case daily_calorie_goal u of
             None \<Rightarrow> 0
           | Some g \<Rightarrow> if g = 0 then 0 else g))"

datatype status = UNDER_GOAL | OVER_GOAL | NO_GOAL_SET

record daily_balance =
  date :: int
  food_calories :: int
  exercise_calories :: int
  net_calories :: int
  daily_goal :: int
  calorie_balance :: int
  is_under_goal :: bool
  is_over_goal :: bool
  goal_percentage :: int
  status :: status
  remaining_calories :: int
  excess_calories :: int

definition calculateDailyBalance :: "int \<Rightarrow> db \<Rightarrow> string \<Rightarrow> int \<Rightarrow> error + daily_balance" where
  "calculateDailyBalance tz d userId dt =
     (case getDailyFoodCalories tz d userId dt of
        Inl e \<Rightarrow> Inl (DailyBalanceError e)
      | Inr foodCalories \<Rightarrow>
     (case getDailyExerciseCalories tz d userId dt of
        Inl e \<Rightarrow> Inl (DailyBalanceError e)
      | Inr exerciseCalories \<Rightarrow>
          (let dailyGoal = getUserDailyGoal d userId;
               netCalories = foodCalories - exerciseCalories;
               calorieBalance = dailyGoal - netCalories;
               isUnderGoal = (if dailyGoal = 0 then True else netCalories \<le> dailyGoal);
               isOverGoal = (if dailyGoal = 0 then False else netCalories > dailyGoal);
               goalPercentage =
                 (if dailyGoal > 0
                  then js_round (fmul (fdiv (of_int netCalories) (of_int dailyGoal)) 100)
                  else 0)
           in Inr \<lparr> date = isoDay dt,
                    food_calories = foodCalories,
                    exercise_calories = exerciseCalories,
                    net_calories = netCalories,
                    daily_goal = dailyGoal,
                    calorie_balance = calorieBalance,
                    is_under_goal = isUnderGoal,
                    is_over_goal = isOverGoal,
                    goal_percentage = goalPercentage,
                    status = (if dailyGoal = 0 then NO_GOAL_SET
                              else if isUnderGoal then UNDER_GOAL else OVER_GOAL),
                    remaining_calories =
                      (if dailyGoal > 0 \<and> isUnderGoal then calorieBalance else 0),
                    excess_calories =
                      (if dailyGoal > 0 \<and> isOverGoal then \<bar>calorieBalance\<bar> else 0) \<rparr>)))"

record weekly_totals =
  total_food :: int
  total_exercise :: int
  total_net :: int
  days_under_goal :: int
  days_over_goal :: int

record weekly_balance =
  week_start :: int
  daily_balances :: "daily_balance list"
  weekly_totals :: weekly_totals
  weekly_average_net :: int
  success_rate :: int

text \<open>The loop \<^verbatim>\<open>for (let i = 0; i < 7; i++)\<close>: one day after the other, the first error ends it.\<close>

function weekDaysLoop ::
  "int \<Rightarrow> db \<Rightarrow> string \<Rightarrow> int \<Rightarrow> int \<Rightarrow> daily_balance list \<Rightarrow> error + daily_balance list" where
  "weekDaysLoop tz d userId weekStartDate i weekDays =
     (if i < 7 then
        (case calculateDailyBalance tz d userId (addDays weekStartDate i) of
           Inl e \<Rightarrow> Inl e
         | Inr dayBalance \<Rightarrow>
             weekDaysLoop tz d userId weekStartDate (i + 1) (weekDays @ [dayBalance]))
      else Inr weekDays)"
  by pat_completeness auto
termination
  by (relation "measure (\<lambda>(tz, d, userId, weekStartDate, i, weekDays). nat (7 - i))") auto

definition addDay :: "weekly_totals \<Rightarrow> daily_balance \<Rightarrow> weekly_totals" where
  "addDay totals day =
     \<lparr> total_food = total_food totals + food_calories day,
       total_exercise = total_exercise totals + exercise_calories day,
       total_net = total_net totals + net_calories day,
       days_under_goal = days_under_goal totals + (if is_under_goal day then 1 else 0),
       days_over_goal = days_over_goal totals + (if is_over_goal day then 1 else 0) \<rparr>"

definition getWeeklyBalance :: "int \<Rightarrow> db \<Rightarrow> string \<Rightarrow> int \<Rightarrow> error + weekly_balance" where
  "getWeeklyBalance tz d userId weekStartDate =
     (case weekDaysLoop tz d userId weekStartDate 0 [] of
        Inl e \<Rightarrow> Inl (WeeklyBalanceError e)
      | Inr weekDays \<Rightarrow>
          (let weeklyTotals =
                 foldl addDay
                   \<lparr> total_food = 0, total_exercise = 0, total_net = 0,
                     days_under_goal = 0, days_over_goal = 0 \<rparr> weekDays
           in Inr \<lparr> week_start = isoDay weekStartDate,
                    daily_balances = weekDays,
                    weekly_totals = weeklyTotals,
                    weekly_average_net = js_round (of_int (total_net weeklyTotals) / 7),
                    success_rate =
                      js_round (of_int (days_under_goal weeklyTotals) / 7 * 100) \<rparr>))"

section \<open>Food logging\<close>

datatype http_error = NotFound string | ServerError

record food_request =
  rq_food_name :: "string option"
  rq_calories_per_serving :: "int option"
  rq_servings_consumed :: "rat option"
  rq_meal_type :: "meal option"
  rq_consumed_at :: "int option"

text \<open>The validators of the model: a row that fails them is not created.\<close>

definition validCalorieEntry :: "calorie_entry \<Rightarrow> bool" where
  "validCalorieEntry e =
     (0 \<le> calories_per_serving e \<and> calories_per_serving e \<le> 10000
      \<and> 1 / 100 \<le> servings_consumed e \<and> servings_consumed e \<le> 100)"

text \<open>
  \<^verbatim>\<open>createFoodEntry\<close> writes \<^verbatim>\<open>req.user.uid\<close>, the Firebase uid, into \<^verbatim>\<open>user_id\<close>. The
  fields that the balance never reads (brand, serving size, macros, notes) are left out.
  The insert is the one of a database that keeps the row; on a database that checks the
  foreign key the insert raises, the answer is status 500 and no row is added.
\<close>

definition createFoodEntry ::
  "db \<Rightarrow> int \<Rightarrow> string \<Rightarrow> food_request \<Rightarrow> http_error + db \<times> calorie_entry" where
  "createFoodEntry d now uid rq =
     (if \<not> reachable d then Inl ServerError
      else
        (case rq_food_name rq of
           None \<Rightarrow> Inl ServerError
         | Some fname \<Rightarrow>
        (case rq_calories_per_serving rq of
           None \<Rightarrow> Inl ServerError
         | Some cps \<Rightarrow>
             (let newEntry =
                    \<lparr> ce_user_id = StrKey uid,
                      food_name = fname,
                      calories_per_serving = cps,
                      servings_consumed =
                        (case rq_servings_consumed rq of
                           None \<Rightarrow> 1 | Some s \<Rightarrow> if s = 0 then 1 else s),
                      meal_type = (case rq_meal_type rq of None \<Rightarrow> snack | Some m \<Rightarrow> m),
                      consumed_at = (case rq_consumed_at rq of None \<Rightarrow> now | Some t \<Rightarrow> t) \<rparr>
              in if validCalorieEntry newEntry
                 then Inr (d\<lparr>calorie_entries := calorie_entries d @ [newEntry]\<rparr>, newEntry)
                 else Inl ServerError))))"

section \<open>Exercise logging\<close>

record user_stats =
  total_workouts :: int
  manual_input_rate :: int
  is_likely_tracker_user :: bool
  avg_manual_vs_preset_diff :: int

definition zeroStats :: user_stats where
  "zeroStats = \<lparr> total_workouts = 0, manual_input_rate = 0,
                 is_likely_tracker_user = False, avg_manual_vs_preset_diff = 0 \<rparr>"

definition Exercises_findByPk :: "db \<Rightarrow> int \<Rightarrow> exercise option" where
  "Exercises_findByPk d i = find (\<lambda>e. ex_id e = i) (exercises d)"

text \<open>A JavaScript number is truthy when it is neither null nor 0.\<close>

definition truthy :: "'a::zero option \<Rightarrow> bool" where
  "truthy v = (case v of None \<Rightarrow> False | Some x \<Rightarrow> x \<noteq> 0)"

definition orZero :: "int option \<Rightarrow> int" where
  "orZero v = (case v of None \<Rightarrow> 0 | Some x \<Rightarrow> x)"

text \<open>
  One round of the \<^verbatim>\<open>forEach\<close> of \<^verbatim>\<open>getUserExerciseStats\<close>, on the counters
  \<^verbatim>\<open>manualInputs\<close>, \<^verbatim>\<open>totalCalorieDiff\<close> and \<^verbatim>\<open>comparableExercises\<close>. The joined
  \<^verbatim>\<open>log.exercise\<close> is the catalogue entry of the log's exercise id; a log without calories
  enters the subtraction as 0.
\<close>

definition statsStep :: "db \<Rightarrow> int \<times> rat \<times> int \<Rightarrow> user_exercise \<Rightarrow> int \<times> rat \<times> int" where
  "statsStep d acc l =
     (case acc of (manualInputs, totalCalorieDiff, comparableExercises) \<Rightarrow>
        (case Exercises_findByPk d (exercise_id l) of
           None \<Rightarrow> acc
         | Some ex \<Rightarrow>
        (case calories_per_minute ex of
           None \<Rightarrow> acc
         | Some cpm \<Rightarrow>
        (case duration_minutes l of
           None \<Rightarrow> acc
         | Some dur \<Rightarrow>
             if cpm \<noteq> 0 \<and> dur \<noteq> 0 then
               (let expectedCalories = fmul (fl cpm) (of_int dur);
                    actualCalories = of_int (orZero (calories_burned l));
                    difference = \<bar>fsub actualCalories expectedCalories\<bar>;
                    percentDiff = fmul (fdiv difference expectedCalories) 100
                in if percentDiff > 5
                   then (manualInputs + 1, fadd totalCalorieDiff difference,
                         comparableExercises + 1)
                   else (manualInputs, totalCalorieDiff, comparableExercises + 1))
             else acc))))"

definition recentExercises :: "db \<Rightarrow> int \<Rightarrow> int \<Rightarrow> user_exercise list" where
  "recentExercises d now userId =
     filter (\<lambda>l. ue_user_id l = userId \<and> addDays now (- 30) \<le> performed_at l) (user_exercises d)"

text \<open>
  \<^verbatim>\<open>getUserExerciseStats\<close> over the logs of the last 30 days; a failed query is caught
  and gives the statistics of a user without logs.
\<close>

definition getUserExerciseStats :: "db \<Rightarrow> int \<Rightarrow> int \<Rightarrow> user_stats" where
  "getUserExerciseStats d now userId =
     (if \<not> reachable d then zeroStats
      else
        (let logs = recentExercises d now userId;
             totalWorkouts = int (length logs)
         in if totalWorkouts = 0 then zeroStats
            else
              (case foldl (statsStep d) (0, 0, 0) logs of
                 (manualInputs, totalCalorieDiff, comparableExercises) \<Rightarrow>
                   (let manualInputRate =
                          fmul (fdiv (of_int manualInputs) (of_int totalWorkouts)) 100;
                        avgDifference =
                          (if comparableExercises > 0
                           then fdiv totalCalorieDiff (of_int comparableExercises) else 0)
                    in \<lparr> total_workouts = totalWorkouts,
                         manual_input_rate = js_round manualInputRate,
                         is_likely_tracker_user = (manualInputRate > 30),
                         avg_manual_vs_preset_diff = js_round avgDifference \<rparr>))))"

datatype suggestion_type =
  fitness_tracker_detected | high_intensity_cardio | strength_training_variation | new_user_education

datatype suggestion_confidence = high | medium | info

datatype suggested_action = manual_input | consider_manual | preset_ok

text \<open>A suggestion, without the text of its message.\<close>

record suggestion =
  sg_type :: suggestion_type
  sg_confidence :: suggestion_confidence
  sg_action :: suggested_action

definition generateSmartSuggestion ::
  "user_stats \<Rightarrow> exercise \<Rightarrow> int \<Rightarrow> int \<Rightarrow> suggestion option" where
  "generateSmartSuggestion userStats ex duration calculatedCalories =
     (let s0 = [];
          s1 = (if is_likely_tracker_user userStats
                then s0 @ [\<lparr> sg_type = fitness_tracker_detected, sg_confidence = high,
                             sg_action = manual_input \<rparr>]
                else s0);
          s2 = (if ex_category ex = cardio
                   \<and> (case calories_per_minute ex of None \<Rightarrow> False | Some c \<Rightarrow> c > 10)
                then s1 @ [\<lparr> sg_type = high_intensity_cardio, sg_confidence = medium,
                             sg_action = consider_manual \<rparr>]
                else s1);
          s3 = (if ex_category ex = strength \<and> duration > 20
                then s2 @ [\<lparr> sg_type = strength_training_variation, sg_confidence = medium,
                             sg_action = consider_manual \<rparr>]
                else s2);
          s4 = (if total_workouts userStats < 5
                then s3 @ [\<lparr> sg_type = new_user_education, sg_confidence = info,
                             sg_action = preset_ok \<rparr>]
                else s3)
      in (case s4 of [] \<Rightarrow> None | s # rest \<Rightarrow> Some s))"

record exercise_request =
  rq_exercise_id :: int
  rq_duration_minutes :: "int option"
  rq_sets :: "int option"
  rq_reps :: "int option"
  rq_weight_kg :: "rat option"
  rq_distance_km :: "rat option"
  rq_calories_burned :: "int option"
  rq_performed_at :: "int option"
  rq_rating :: "int option"

datatype calculation = automatic | manual

record log_response =
  logged :: user_exercise
  calculation_method :: calculation
  preset_calories_per_min :: "rat option"
  smart_suggestion :: "suggestion option"
  stats :: user_stats

definition inRange :: "'a::linorder \<Rightarrow> 'a \<Rightarrow> 'a option \<Rightarrow> bool" where
  "inRange lo hi v = (case v of None \<Rightarrow> True | Some x \<Rightarrow> lo \<le> x \<and> x \<le> hi)"

definition validUserExercise :: "user_exercise \<Rightarrow> bool" where
  "validUserExercise l =
     (inRange 1 1440 (duration_minutes l) \<and> inRange 1 100 (sets l) \<and> inRange 1 1000 (reps l)
      \<and> inRange 0 1000 (weight_kg l) \<and> inRange 0 1000 (distance_km l)
      \<and> inRange 0 5000 (calories_burned l) \<and> inRange 1 5 (rating l))"

text \<open>
  \<^verbatim>\<open>logExercise\<close>: the two lookups with their 404 answers, the calorie estimate, the
  validated insert (a row that fails a validator gives 500) and the answer.
\<close>

definition logExercise ::
  "db \<Rightarrow> int \<Rightarrow> string \<Rightarrow> exercise_request \<Rightarrow> http_error + db \<times> log_response" where
  "logExercise d now uid rq =
     (case Users_findOne d uid of
        Inl e \<Rightarrow> Inl ServerError
      | Inr None \<Rightarrow> Inl (NotFound ''User not found. Please complete profile setup first.'')
      | Inr (Some u) \<Rightarrow>
     (case Exercises_findByPk d (rq_exercise_id rq) of
        None \<Rightarrow> Inl (NotFound ''Exercise not found'')
      | Some ex \<Rightarrow>
          (let userStats = getUserExerciseStats d now (user_pk u);
               calories_burned0 = rq_calories_burned rq;
               duration = rq_duration_minutes rq;
               (finalCaloriesBurned, calculationMethod, smartSuggestion) =
                 (if \<not> truthy calories_burned0 \<and> truthy duration \<and> truthy (calories_per_minute ex)
                  then
                    (case (calories_per_minute ex, duration) of
                       (Some cpm, Some dur) \<Rightarrow>
                         (let computed = js_round (fmul (fl cpm) (of_int dur))
                          in (Some computed, automatic,
                              generateSmartSuggestion userStats ex dur computed))
                     | _ \<Rightarrow> (calories_burned0, automatic, None))
                  else if truthy calories_burned0 then (calories_burned0, manual, None)
                  else (calories_burned0, automatic, None));
               newExerciseLog =
                 \<lparr> ue_user_id = user_pk u,
                   exercise_id = rq_exercise_id rq,
                   duration_minutes = duration,
                   sets = rq_sets rq,
                   reps = rq_reps rq,
                   weight_kg = rq_weight_kg rq,
                   distance_km = rq_distance_km rq,
                   calories_burned = Some (orZero finalCaloriesBurned),
                   performed_at = (case rq_performed_at rq of None \<Rightarrow> now | Some t \<Rightarrow> t),
                   rating = rq_rating rq \<rparr>
           in if validUserExercise newExerciseLog
              then Inr (d\<lparr>user_exercises := user_exercises d @ [newExerciseLog]\<rparr>,
                        \<lparr> logged = newExerciseLog,
                          calculation_method = calculationMethod,
                          preset_calories_per_min = calories_per_minute ex,
                          smart_suggestion = smartSuggestion,
                          stats = userStats \<rparr>)
              else Inl ServerError)))"

section \<open>The recommendation service\<close>

record goal_config =
  priorities :: "category list"
  intensity :: string
  duration_preference :: string
  calorie_focus :: bool
  progression_focus :: bool
  balanced :: bool
  maintenance :: bool
  strength_focus :: bool

fun goalMappings :: "goal \<Rightarrow> goal_config" where
  "goalMappings lose_weight =
     \<lparr> priorities = [cardio, functional], intensity = ''high'',
       duration_preference = ''medium_long'', calorie_focus = True, progression_focus = False,
       balanced = False, maintenance = False, strength_focus = False \<rparr>"
| "goalMappings build_muscle =
     \<lparr> priorities = [strength], intensity = ''high'',
       duration_preference = ''medium'', calorie_focus = False, progression_focus = True,
       balanced = False, maintenance = False, strength_focus = False \<rparr>"
| "goalMappings improve_fitness =
     \<lparr> priorities = [cardio, functional, strength], intensity = ''medium'',
       duration_preference = ''medium'', calorie_focus = False, progression_focus = False,
       balanced = True, maintenance = False, strength_focus = False \<rparr>"
| "goalMappings maintain_weight =
     \<lparr> priorities = [cardio, strength, flexibility], intensity = ''medium'',
       duration_preference = ''short_medium'', calorie_focus = False, progression_focus = False,
       balanced = False, maintenance = True, strength_focus = False \<rparr>"
| "goalMappings gain_weight =
     \<lparr> priorities = [strength], intensity = ''high'',
       duration_preference = ''medium_long'', calorie_focus = False, progression_focus = False,
       balanced = False, maintenance = False, strength_focus = True \<rparr>"

text \<open>
  \<^verbatim>\<open>goalMappings[user.fitness_goal] || goalMappings['improve_fitness']\<close>: the column is
  an enumeration of the five goals or null.
\<close>

definition goalConfigOf :: "user \<Rightarrow> goal_config" where
  "goalConfigOf u =
     (case fitness_goal u of None \<Rightarrow> goalMappings improve_fitness | Some g \<Rightarrow> goalMappings g)"

text \<open>\<^verbatim>\<open>Array.prototype.indexOf\<close>: the first position of an element, or -1.\<close>

fun indexOf :: "'a list \<Rightarrow> 'a \<Rightarrow> int" where
  "indexOf [] x = - 1"
| "indexOf (y # ys) x =
     (if y = x then 0 else (let r = indexOf ys x in if r < 0 then - 1 else r + 1))"

fun levelMap :: "activity \<Rightarrow> difficulty" where
  "levelMap sedentary = beginner"
| "levelMap lightly_active = beginner"
| "levelMap moderately_active = intermediate"
| "levelMap very_active = intermediate"
| "levelMap extremely_active = advanced"

text \<open>A catalogue entry with its score; the text of the reason is left out.\<close>

record scored_exercise =
  item :: exercise
  ai_score :: rat

definition scored :: "rat \<Rightarrow> exercise \<Rightarrow> scored_exercise" where
  "scored s ex = \<lparr> item = ex, ai_score = s \<rparr>"

definition goalScore :: "goal_config \<Rightarrow> user \<Rightarrow> exercise \<Rightarrow> rat" where
  "goalScore goalConfig u ex =
     (let score0 = 0;
          categoryIndex = indexOf (priorities goalConfig) (ex_category ex);
          score1 = score0 + of_int ((int (length (priorities goalConfig)) - categoryIndex) * 20);
          score2 = (if calorie_focus goalConfig
                       \<and> (case calories_per_minute ex of None \<Rightarrow> False | Some c \<Rightarrow> c > 8)
                    then score1 + 25 else score1);
          score3 = (if strength_focus goalConfig \<and> ex_category ex = strength
                    then score2 + 30 else score2);
          userLevel = (case activity_level u of None \<Rightarrow> moderately_active | Some a \<Rightarrow> a)
      in if difficulty_level ex = levelMap userLevel then score3 + 15 else score3)"

text \<open>
  \<^verbatim>\<open>xs.slice(0, e)\<close>: a negative end counts from the end of the array.
\<close>

definition slice0 :: "int \<Rightarrow> 'a list \<Rightarrow> 'a list" where
  "slice0 e xs = (if e < 0 then take (nat (int (length xs) + e)) xs else take (nat e) xs)"

text \<open>\<^verbatim>\<open>options.limit || dflt\<close>.\<close>

definition limitOr :: "int option \<Rightarrow> int \<Rightarrow> int" where
  "limitOr limit dflt = (case limit of None \<Rightarrow> dflt | Some n \<Rightarrow> if n = 0 then dflt else n)"

text \<open>
  \<^verbatim>\<open>getGoalBasedRecommendations\<close>. \<^verbatim>\<open>Array.prototype.sort\<close> is stable, and so is
  \<^const>\<open>sort_key\<close>; the comparator \<^verbatim>\<open>b.ai_score - a.ai_score\<close> orders by falling score.
\<close>

definition getGoalBasedRecommendations :: "db \<Rightarrow> user \<Rightarrow> int option \<Rightarrow> scored_exercise list" where
  "getGoalBasedRecommendations d u limit =
     (let goalConfig = goalConfigOf u;
          found = filter (\<lambda>ex. ex_category ex \<in> set (priorities goalConfig) \<and> is_active ex)
                    (exercises d);
          scoredExercises = map (\<lambda>ex. \<lparr> item = ex, ai_score = goalScore goalConfig u ex \<rparr>) found
      in slice0 (limitOr limit 8) (sort_key (\<lambda>r. - ai_score r) scoredExercises))"

datatype rec_source = goal_based | progressive | behavioral | balance | adaptive

record tagged_rec =
  base :: scored_exercise
  source :: rec_source
  weight :: rat

record final_rec =
  tagged :: tagged_rec
  final_ai_score :: int
  confidence :: int

definition rec_id :: "tagged_rec \<Rightarrow> int" where
  "rec_id r = ex_id (item (base r))"

text \<open>
  \<^verbatim>\<open>deduplicateRecommendations\<close>: the filter with its set \<^verbatim>\<open>seen\<close>, which grows as the
  filter walks the array.
\<close>

fun dedupFrom :: "int set \<Rightarrow> tagged_rec list \<Rightarrow> tagged_rec list" where
  "dedupFrom seen [] = []"
| "dedupFrom seen (r # rs) =
     (if rec_id r \<in> seen then dedupFrom seen rs else r # dedupFrom (insert (rec_id r) seen) rs)"

definition deduplicateRecommendations :: "tagged_rec list \<Rightarrow> tagged_rec list" where
  "deduplicateRecommendations recommendations = dedupFrom {} recommendations"

definition calculateConfidence :: "tagged_rec \<Rightarrow> int" where
  "calculateConfidence r =
     (let c0 = 50;
          c1 = (if source r = goal_based then c0 + 30 else c0);
          c2 = (if ai_score (base r) > 80 then c1 + 20 else c1)
      in min 100 c2)"

text \<open>The result lists of the five scorers, as \<^verbatim>\<open>fuseRecommendations\<close> receives them.\<close>

record scorer_results =
  goalBased :: "scored_exercise list"
  progressiveRecs :: "scored_exercise list"
  behavioralRecs :: "scored_exercise list"
  balanceRecs :: "scored_exercise list"
  adaptiveRecs :: "scored_exercise list"

definition tag :: "rec_source \<Rightarrow> rat \<Rightarrow> scored_exercise \<Rightarrow> tagged_rec" where
  "tag s w r = \<lparr> base = r, source = s, weight = w \<rparr>"

text \<open>The weights are the literals \<^verbatim>\<open>0.35\<close>, \<^verbatim>\<open>0.25\<close>, \<^verbatim>\<open>0.20\<close>, \<^verbatim>\<open>0.15\<close> and \<^verbatim>\<open>0.05\<close>.\<close>

definition allRecs :: "scorer_results \<Rightarrow> tagged_rec list" where
  "allRecs rs =
     map (tag goal_based (fl (35 / 100))) (goalBased rs)
     @ map (tag progressive (fl (25 / 100))) (progressiveRecs rs)
     @ map (tag behavioral (fl (20 / 100))) (behavioralRecs rs)
     @ map (tag balance (fl (15 / 100))) (balanceRecs rs)
     @ map (tag adaptive (fl (5 / 100))) (adaptiveRecs rs)"

definition finalize :: "tagged_rec \<Rightarrow> final_rec" where
  "finalize r =
     \<lparr> tagged = r,
       final_ai_score = js_round (fmul (ai_score (base r)) (weight r)),
       confidence = calculateConfidence r \<rparr>"

definition fuseRecommendations :: "scorer_results \<Rightarrow> final_rec list" where
  "fuseRecommendations rs =
     (let uniqueRecs = deduplicateRecommendations (allRecs rs);
          finalRecommendations = map finalize uniqueRecs
      in slice0 10 (sort_key (\<lambda>r. - final_ai_score r) finalRecommendations))"

definition getUserExerciseHistory :: "db \<Rightarrow> int \<Rightarrow> int \<Rightarrow> user_exercise list" where
  "getUserExerciseHistory d now userId =
     sort_key (\<lambda>l. - performed_at l)
       (filter (\<lambda>l. ue_user_id l = userId \<and> addDays now (- 30) \<le> performed_at l)
          (user_exercises d))"

definition calculateExperienceScore :: "user_exercise list \<Rightarrow> int" where
  "calculateExperienceScore exerciseHistory =
     (let totalWorkouts = int (length exerciseHistory);
          uniqueExercises = int (length (remdups (map exercise_id exerciseHistory)))
      in min 100 (totalWorkouts * 2 + uniqueExercises * 5))"

record recommendations =
  primary_goal :: "goal option"
  experience_score :: int
  ai_recommendations :: "final_rec list"

text \<open>
  The progressive, behavioural, balance and adaptive scorers call methods that the class
  does not define anywhere (\<^verbatim>\<open>analyzeProgression\<close>, \<^verbatim>\<open>findProgressionExercise\<close>,
  \<^verbatim>\<open>analyzeBehavioralPatterns\<close>, \<^verbatim>\<open>findSimilarExercises\<close>, \<^verbatim>\<open>analyzeMuscleGroupBalance\<close>,
  \<^verbatim>\<open>extractMuscleGroups\<close>, \<^verbatim>\<open>analyzeRecentPerformance\<close>, \<^verbatim>\<open>adjustDifficultyLevel\<close>): the
  class body ends after \<^verbatim>\<open>calculateConfidence\<close>. Such a call raises a \<^verbatim>\<open>TypeError\<close>, and
  each scorer is modelled up to its first such call.

  \<^verbatim>\<open>getProgressiveOverloadRecommendations\<close> returns the empty list on fewer than 3 logs.
  Otherwise the logs fall into at least one group, and the first round of the loop over
  the groups calls \<^verbatim>\<open>this.analyzeProgression\<close>.
\<close>

definition getProgressiveOverloadRecommendations ::
  "user_exercise list \<Rightarrow> error + scored_exercise list" where
  "getProgressiveOverloadRecommendations exerciseHistory =
     (if length exerciseHistory < 3 then Inr []
      else Inl (NotAFunction ''analyzeProgression''))"

text \<open>
  \<^verbatim>\<open>getBehavioralRecommendations\<close> returns the empty list on fewer than 5 logs and calls
  \<^verbatim>\<open>this.analyzeBehavioralPatterns\<close> otherwise, before it looks at the ratings.
\<close>

definition getBehavioralRecommendations ::
  "user_exercise list \<Rightarrow> error + scored_exercise list" where
  "getBehavioralRecommendations exerciseHistory =
     (if length exerciseHistory < 5 then Inr []
      else Inl (NotAFunction ''analyzeBehavioralPatterns''))"

text \<open>
  \<^verbatim>\<open>getBalanceAndRecoveryRecommendations\<close> filters the logs of the last 7 days and calls
  \<^verbatim>\<open>this.analyzeMuscleGroupBalance\<close> on them.
\<close>

definition getBalanceAndRecoveryRecommendations ::
  "int \<Rightarrow> user_exercise list \<Rightarrow> error + scored_exercise list" where
  "getBalanceAndRecoveryRecommendations now exerciseHistory =
     (let recentWorkouts =
            filter (\<lambda>session.
                      fdiv (of_int (now - performed_at session)) (of_int (1000 * 60 * 60 * 24)) \<le> 7)
              exerciseHistory
      in Inl (NotAFunction ''analyzeMuscleGroupBalance''))"

text \<open>
  The first statement of \<^verbatim>\<open>getAdaptiveDifficultyRecommendations\<close> calls
  \<^verbatim>\<open>this.analyzeRecentPerformance\<close>.
\<close>

definition getAdaptiveDifficultyRecommendations ::
  "user_exercise list \<Rightarrow> error + scored_exercise list" where
  "getAdaptiveDifficultyRecommendations exerciseHistory =
     Inl (NotAFunction ''analyzeRecentPerformance'')"

text \<open>
  \<^verbatim>\<open>getPersonalizedRecommendations\<close>. The five scorers are started in the order of the
  array that \<^verbatim>\<open>Promise.all\<close> receives. A scorer that raises before its first \<^verbatim>\<open>await\<close>
  has rejected when \<^verbatim>\<open>Promise.all\<close> looks at the array, while the goal-based scorer still
  waits for its query; so \<^verbatim>\<open>Promise.all\<close> rejects with the error of the first of the four
  other scorers that raises, and that error is caught and wrapped.
\<close>

definition getPersonalizedRecommendations ::
  "db \<Rightarrow> int \<Rightarrow> string \<Rightarrow> int option \<Rightarrow> error + recommendations" where
  "getPersonalizedRecommendations d now firebaseUid limit =
     (case Users_findOne d firebaseUid of
        Inl e \<Rightarrow> Inl (AIRecommendationError e)
      | Inr None \<Rightarrow> Inl (AIRecommendationError UserNotFound)
      | Inr (Some u) \<Rightarrow>
          (let exerciseHistory = getUserExerciseHistory d now (user_pk u);
               goalBasedRecs = getGoalBasedRecommendations d u limit
           in
     (case getProgressiveOverloadRecommendations exerciseHistory of
        Inl e \<Rightarrow> Inl (AIRecommendationError e)
      | Inr progressiveRecs0 \<Rightarrow>
     (case getBehavioralRecommendations exerciseHistory of
        Inl e \<Rightarrow> Inl (AIRecommendationError e)
      | Inr behavioralRecs0 \<Rightarrow>
     (case getBalanceAndRecoveryRecommendations now exerciseHistory of
        Inl e \<Rightarrow> Inl (AIRecommendationError e)
      | Inr balanceRecs0 \<Rightarrow>
     (case getAdaptiveDifficultyRecommendations exerciseHistory of
        Inl e \<Rightarrow> Inl (AIRecommendationError e)
      | Inr adaptiveRecs0 \<Rightarrow>
          (let fusedRecommendations =
                 fuseRecommendations
                   \<lparr> goalBased = goalBasedRecs,
                     progressiveRecs = progressiveRecs0,
                     behavioralRecs = behavioralRecs0,
                     balanceRecs = balanceRecs0,
                     adaptiveRecs = adaptiveRecs0 \<rparr>
           in Inr \<lparr> primary_goal = fitness_goal u,
                    experience_score = calculateExperienceScore exerciseHistory,
                    ai_recommendations = fusedRecommendations \<rparr>)))))))"

section \<open>The specification's words\<close>

text \<open>
  The calendar day of an instant in the server's zone, counted from the epoch; it states
  which instants the window of a date holds.
\<close>

definition localDay :: "int \<Rightarrow> int \<Rightarrow> int" where
  "localDay tz t = (t + tz) div ms_per_day"

text \<open>
  The daily food total as the specification words it: every entry's total is rounded
  first, the rounded totals are added, and the sum is rounded.
\<close>

definition spec_dailyFoodTotal :: "calorie_entry list \<Rightarrow> int" where
  "spec_dailyFoodTotal foodEntries = js_round (of_int (sum_list (map total_calories foodEntries)))"

text \<open>
  The formulas of the specification read as arithmetic on the decimal values: the goal
  percentage is the rounded value of net over goal times 100, and the calorie estimate is
  the manual value when one is given, the rounded product of rate and duration when both
  are present, and 0 otherwise.
\<close>

definition spec_goalPercentage :: "int \<Rightarrow> int \<Rightarrow> int" where
  "spec_goalPercentage net goal = js_round (of_int net / of_int goal * 100)"

definition spec_estimate :: "rat option \<Rightarrow> int option \<Rightarrow> int option \<Rightarrow> int \<times> calculation" where
  "spec_estimate caloriesPerMinute durationMinutes manualCalories =
     (case manualCalories of
        Some m \<Rightarrow>
          if m \<noteq> 0 then (m, manual)
          else (case (caloriesPerMinute, durationMinutes) of
                  (Some cpm, Some dur) \<Rightarrow> (js_round (cpm * of_int dur), automatic)
                | _ \<Rightarrow> (0, automatic))
      | None \<Rightarrow>
          (case (caloriesPerMinute, durationMinutes) of
             (Some cpm, Some dur) \<Rightarrow> (js_round (cpm * of_int dur), automatic)
           | _ \<Rightarrow> (0, automatic)))"

text \<open>
  The behavioural profile as the specification words it, read as arithmetic on the decimal
  values: a log with a comparable preset rate is likely manual when its calories differ
  from rate times duration by more than 5 percent of that product, the manual input rate
  is the percentage of all logs of the last 30 days that are likely manual, and the
  suggestion is the first that applies in the listed order.
\<close>

definition spec_likelyManual :: "db \<Rightarrow> user_exercise \<Rightarrow> bool" where
  "spec_likelyManual d l =
     (case Exercises_findByPk d (exercise_id l) of
        None \<Rightarrow> False
      | Some ex \<Rightarrow>
     (case calories_per_minute ex of
        None \<Rightarrow> False
      | Some cpm \<Rightarrow>
     (case duration_minutes l of
        None \<Rightarrow> False
      | Some dur \<Rightarrow>
          cpm \<noteq> 0 \<and> dur \<noteq> 0
          \<and> \<bar>of_int (orZero (calories_burned l)) - cpm * of_int dur\<bar> / (cpm * of_int dur) * 100 > 5)))"

definition spec_manualInputRate :: "db \<Rightarrow> user_exercise list \<Rightarrow> rat" where
  "spec_manualInputRate d logs =
     (if logs = [] then 0
      else of_int (int (length (filter (spec_likelyManual d) logs))) / of_int (int (length logs)) * 100)"

definition spec_last30Days :: "db \<Rightarrow> int \<Rightarrow> int \<Rightarrow> user_exercise list" where
  "spec_last30Days d now pk =
     filter (\<lambda>l. ue_user_id l = pk \<and> now - 30 * 86400000 \<le> performed_at l) (user_exercises d)"

definition spec_suggestion :: "db \<Rightarrow> int \<Rightarrow> int \<Rightarrow> exercise \<Rightarrow> int \<Rightarrow> suggestion_type option" where
  "spec_suggestion d now pk ex duration =
     (if spec_manualInputRate d (spec_last30Days d now pk) > 30
      then Some fitness_tracker_detected
      else if ex_category ex = cardio
              \<and> (case calories_per_minute ex of None \<Rightarrow> False | Some c \<Rightarrow> c > 10)
      then Some high_intensity_cardio
      else if ex_category ex = strength \<and> duration > 20 then Some strength_training_variation
      else if int (length (spec_last30Days d now pk)) < 5 then Some new_user_education
      else None)"

text \<open>
  The same profile in the arithmetic of the code. The expected calories are the product
  of the rate, read as the nearest double, and the duration, rounded to a double; the
  difference to the logged calories, its quotient by the expected calories and the
  product with 100 are each rounded to a double; so are the quotient of the number of
  flagged logs by the number of logs and its product with 100.
\<close>

definition flaggedManual :: "db \<Rightarrow> user_exercise \<Rightarrow> bool" where
  "flaggedManual d l =
     (case Exercises_findByPk d (exercise_id l) of
        None \<Rightarrow> False
      | Some ex \<Rightarrow>
     (case calories_per_minute ex of
        None \<Rightarrow> False
      | Some cpm \<Rightarrow>
     (case duration_minutes l of
        None \<Rightarrow> False
      | Some dur \<Rightarrow>
          cpm \<noteq> 0 \<and> dur \<noteq> 0
          \<and> fl (fl (\<bar>fl (of_int (orZero (calories_burned l)) - fl (fl cpm * of_int dur))\<bar>
                     / fl (fl cpm * of_int dur)) * 100) > 5)))"

definition flaggedRate :: "db \<Rightarrow> user_exercise list \<Rightarrow> rat" where
  "flaggedRate d logs =
     (if logs = [] then 0
      else fl (fl (of_int (int (length (filter (flaggedManual d) logs)))
                   / of_int (int (length logs))) * 100))"

text \<open>
  The difficulty the specification expects of an activity level, and the score it gives
  an exercise whose category stands at position \<open>i\<close> of the goal's priority list.
\<close>

definition spec_expectedDifficulty :: "activity \<Rightarrow> difficulty" where
  "spec_expectedDifficulty a =
     (if a = sedentary \<or> a = lightly_active then beginner
      else if a = moderately_active \<or> a = very_active then intermediate
      else advanced)"

definition spec_goalScore :: "goal_config \<Rightarrow> activity \<Rightarrow> exercise \<Rightarrow> nat \<Rightarrow> rat" where
  "spec_goalScore cfg a ex i =
     20 * (of_nat (length (priorities cfg)) - of_nat i)
     + (if calorie_focus cfg \<and> (case calories_per_minute ex of None \<Rightarrow> False | Some c \<Rightarrow> c > 8)
        then 25 else 0)
     + (if strength_focus cfg \<and> ex_category ex = strength then 30 else 0)
     + (if difficulty_level ex = spec_expectedDifficulty a then 15 else 0)"

section \<open>Example data\<close>

definition userA :: user where
  "userA = \<lparr> user_pk = 1, firebase_uid = ''uidA'', activity_level = Some moderately_active,
              fitness_goal = Some lose_weight, daily_calorie_goal = Some 2000 \<rparr>"

definition foodAt :: "int \<Rightarrow> int \<Rightarrow> rat \<Rightarrow> int \<Rightarrow> calorie_entry" where
  "foodAt pk cps servings t =
     \<lparr> ce_user_id = IntKey pk, food_name = ''oats'', calories_per_serving = cps,
       servings_consumed = servings, meal_type = snack, consumed_at = t \<rparr>"

definition workoutAt :: "int \<Rightarrow> int \<Rightarrow> int option \<Rightarrow> int option \<Rightarrow> int \<Rightarrow> user_exercise" where
  "workoutAt pk ex dur cal t =
     \<lparr> ue_user_id = pk, exercise_id = ex, duration_minutes = dur, sets = None, reps = None,
       weight_kg = None, distance_km = None, calories_burned = cal, performed_at = t,
       rating = None \<rparr>"

definition catalogEntry ::
  "int \<Rightarrow> category \<Rightarrow> difficulty \<Rightarrow> rat option \<Rightarrow> bool \<Rightarrow> exercise" where
  "catalogEntry i c l cpm a =
     \<lparr> ex_id = i, ex_name = ''exercise'', ex_category = c, difficulty_level = l,
       calories_per_minute = cpm, muscle_groups = [], is_active = a \<rparr>"

definition catalog :: "exercise list" where
  "catalog =
     [catalogEntry 1 cardio beginner (Some 12) True,
      catalogEntry 2 cardio beginner (Some 5) True,
      catalogEntry 3 strength intermediate (Some 7) True,
      catalogEntry 4 functional intermediate (Some 10) True,
      catalogEntry 5 flexibility beginner (Some 3) True,
      catalogEntry 6 cardio advanced (Some 15) False,
      catalogEntry 7 functional advanced None True]"

text \<open>
  A server one hour east of Greenwich, and a day of user 1: two meals inside the local
  day (the second in its last millisecond), one in the first millisecond of the next day,
  one of another user, one large meal three days later; one workout with calories and
  one without.
\<close>

definition dayDb :: db where
  "dayDb =
     \<lparr> reachable = True,
       users = [userA],
       calorie_entries =
         [foodAt 1 250 (3 / 2) 1000, foodAt 1 333 (1 / 2) 82799999,
          foodAt 1 999 1 82800000, foodAt 2 400 1 5000, foodAt 1 2600 1 259200000],
       user_exercises =
         [workoutAt 1 1 (Some 25) (Some 300) 2000, workoutAt 1 3 (Some 10) None 3000],
       exercises = catalog \<rparr>"

definition dayBalance :: daily_balance where
  "dayBalance =
     \<lparr> date = 0, food_calories = 542, exercise_calories = 300, net_calories = 242,
       daily_goal = 2000, calorie_balance = 1758, is_under_goal = True, is_over_goal = False,
       goal_percentage = 12, status = UNDER_GOAL, remaining_calories = 1758,
       excess_calories = 0 \<rparr>"

definition halvesDb :: db where
  "halvesDb = \<lparr> reachable = True, users = [userA],
                calorie_entries = [foodAt 1 1 (1 / 2) 1000, foodAt 1 1 (1 / 2) 2000],
                user_exercises = [], exercises = [] \<rparr>"

text \<open>
  A day with one entry of 25 calories and 0.58 servings, and a day with a net of 145
  calories for a user whose goal is 1000.
\<close>

definition servingDb :: db where
  "servingDb = \<lparr> reachable = True, users = [userA],
                  calorie_entries = [foodAt 1 25 (58 / 100) 1000],
                  user_exercises = [], exercises = [] \<rparr>"

definition percentDb :: db where
  "percentDb = \<lparr> reachable = True, users = [userA\<lparr>daily_calorie_goal := Some 1000\<rparr>],
                  calorie_entries = [foodAt 1 145 1 1000],
                  user_exercises = [], exercises = [] \<rparr>"

definition noGoalDb :: db where
  "noGoalDb = dayDb\<lparr>users := [userA\<lparr>daily_calorie_goal := None\<rparr>]\<rparr>"

definition mkBalance ::
  "int \<Rightarrow> int \<Rightarrow> int \<Rightarrow> int \<Rightarrow> int \<Rightarrow> bool \<Rightarrow> int \<Rightarrow> status \<Rightarrow> int \<Rightarrow> int \<Rightarrow> daily_balance" where
  "mkBalance dt f e g cb u p st r x =
     \<lparr> date = dt, food_calories = f, exercise_calories = e, net_calories = f - e,
       daily_goal = g, calorie_balance = cb, is_under_goal = u, is_over_goal = (\<not> u),
       goal_percentage = p, status = st, remaining_calories = r, excess_calories = x \<rparr>"

definition dayWeek :: weekly_balance where
  "dayWeek =
     \<lparr> week_start = 0,
       daily_balances =
         [mkBalance 0 542 300 2000 1758 True 12 UNDER_GOAL 1758 0,
          mkBalance 1 999 0 2000 1001 True 50 UNDER_GOAL 1001 0,
          mkBalance 2 0 0 2000 2000 True 0 UNDER_GOAL 2000 0,
          mkBalance 3 2600 0 2000 (- 600) False 130 OVER_GOAL 0 600,
          mkBalance 4 0 0 2000 2000 True 0 UNDER_GOAL 2000 0,
          mkBalance 5 0 0 2000 2000 True 0 UNDER_GOAL 2000 0,
          mkBalance 6 0 0 2000 2000 True 0 UNDER_GOAL 2000 0],
       weekly_totals =
         \<lparr> total_food = 4141, total_exercise = 300, total_net = 3841,
           days_under_goal = 6, days_over_goal = 1 \<rparr>,
       weekly_average_net = 549,
       success_rate = 86 \<rparr>"

definition noGoalWeek :: weekly_balance where
  "noGoalWeek =
     \<lparr> week_start = 0,
       daily_balances =
         [mkBalance 0 542 300 0 (- 242) True 0 NO_GOAL_SET 0 0,
          mkBalance 1 999 0 0 (- 999) True 0 NO_GOAL_SET 0 0,
          mkBalance 2 0 0 0 0 True 0 NO_GOAL_SET 0 0,
          mkBalance 3 2600 0 0 (- 2600) True 0 NO_GOAL_SET 0 0,
          mkBalance 4 0 0 0 0 True 0 NO_GOAL_SET 0 0,
          mkBalance 5 0 0 0 0 True 0 NO_GOAL_SET 0 0,
          mkBalance 6 0 0 0 0 True 0 NO_GOAL_SET 0 0],
       weekly_totals =
         \<lparr> total_food = 4141, total_exercise = 300, total_net = 3841,
           days_under_goal = 7, days_over_goal = 0 \<rparr>,
       weekly_average_net = 549,
       success_rate = 100 \<rparr>"

definition goalDb :: db where
  "goalDb = \<lparr> reachable = True, users = [userA], calorie_entries = [],
               user_exercises = [], exercises = catalog \<rparr>"

definition lunchRequest :: food_request where
  "lunchRequest =
     \<lparr> rq_food_name = Some ''lunch'', rq_calories_per_serving = Some 1800,
       rq_servings_consumed = None, rq_meal_type = Some lunch,
       rq_consumed_at = Some 43200000 \<rparr>"

definition lunchEntry :: "key \<Rightarrow> calorie_entry" where
  "lunchEntry k =
     \<lparr> ce_user_id = k, food_name = ''lunch'', calories_per_serving = 1800,
       servings_consumed = 1, meal_type = lunch, consumed_at = 43200000 \<rparr>"

definition trackerSuggestion :: suggestion where
  "trackerSuggestion =
     \<lparr> sg_type = fitness_tracker_detected, sg_confidence = high, sg_action = manual_input \<rparr>"

definition cardioSuggestion :: suggestion where
  "cardioSuggestion =
     \<lparr> sg_type = high_intensity_cardio, sg_confidence = medium, sg_action = consider_manual \<rparr>"

definition strengthSuggestion :: suggestion where
  "strengthSuggestion =
     \<lparr> sg_type = strength_training_variation, sg_confidence = medium,
       sg_action = consider_manual \<rparr>"

definition newUserSuggestion :: suggestion where
  "newUserSuggestion =
     \<lparr> sg_type = new_user_education, sg_confidence = info, sg_action = preset_ok \<rparr>"

definition logRequest :: "int \<Rightarrow> int option \<Rightarrow> int option \<Rightarrow> exercise_request" where
  "logRequest ex dur cal =
     \<lparr> rq_exercise_id = ex, rq_duration_minutes = dur, rq_sets = None, rq_reps = None,
       rq_weight_kg = None, rq_distance_km = None, rq_calories_burned = cal,
       rq_performed_at = None, rq_rating = None \<rparr>"

text \<open>
  At the instant 43200000 the last 30 days start at -2548800000. User 1 has one log with
  200 calories where the preset gives 120, two logs with the preset's calories, the
  second of them on the first instant of the 30 days, and one log a millisecond older;
  one log is of another user.
\<close>

definition trackerDb :: db where
  "trackerDb = goalDb\<lparr>user_exercises :=
     [workoutAt 1 1 (Some 10) (Some 200) 2000, workoutAt 1 1 (Some 10) (Some 120) 3000,
      workoutAt 1 1 (Some 10) (Some 120) (- 2548800000),
      workoutAt 1 1 (Some 10) (Some 500) (- 2548800001),
      workoutAt 2 1 (Some 10) (Some 500) 2500]\<rparr>"

text \<open>
  Two more catalogue entries, with rates of 0.29 and 4.4 calories per minute, and a user
  whose only log has 209 calories for 50 minutes at the rate of 4.4: 5 percent less than
  the preset's 220.
\<close>

definition decimalDb :: db where
  "decimalDb = goalDb\<lparr>exercises :=
     catalog @ [catalogEntry 8 flexibility beginner (Some (29 / 100)) True,
                catalogEntry 9 flexibility beginner (Some (44 / 10)) True]\<rparr>"

definition borderDb :: db where
  "borderDb = decimalDb\<lparr>user_exercises := [workoutAt 1 9 (Some 50) (Some 209) 2000]\<rparr>"

definition veteranDb :: db where
  "veteranDb = goalDb\<lparr>user_exercises :=
     [workoutAt 1 2 (Some 10) (Some 50) 1000, workoutAt 1 2 (Some 10) (Some 50) 2000,
      workoutAt 1 2 (Some 10) (Some 50) 3000, workoutAt 1 2 (Some 10) (Some 50) 4000,
      workoutAt 1 2 (Some 10) (Some 50) 5000]\<rparr>"

definition answerOf ::
  "user_exercise \<Rightarrow> calculation \<Rightarrow> rat option \<Rightarrow> suggestion option \<Rightarrow> user_stats \<Rightarrow> log_response" where
  "answerOf l m p s st =
     \<lparr> logged = l, calculation_method = m, preset_calories_per_min = p,
       smart_suggestion = s, stats = st \<rparr>"

definition logOn :: "db \<Rightarrow> user_exercise \<Rightarrow> db" where
  "logOn d l = d\<lparr>user_exercises := user_exercises d @ [l]\<rparr>"

definition statsOf :: "int \<Rightarrow> int \<Rightarrow> bool \<Rightarrow> int \<Rightarrow> user_stats" where
  "statsOf n rate tracker diff =
     \<lparr> total_workouts = n, manual_input_rate = rate, is_likely_tracker_user = tracker,
       avg_manual_vs_preset_diff = diff \<rparr>"

section \<open>The rounding to a double\<close>

text \<open>
  The exponent is the one of the binary logarithm, and the rounding moves a number by at
  most half a unit in the last place: by at most the \<open>2\<^sup>5\<^sup>3\<close>-th part of its magnitude in
  the normal range, and by at most \<open>2 powi (- 1075)\<close> below it.
\<close>

lemma round_even_error: "\<bar>of_int (round_even z) - z\<bar> \<le> 1 / 2"
proof -
  define f where "f = \<lfloor>z\<rfloor>"
  define r where "r = z - of_int f"
  have r: "0 \<le> r" "r < 1"
    unfolding r_def f_def by linarith+
  have z: "z = of_int f + r" by (simp add: r_def)
  have "round_even z = (if r < 1 / 2 then f else if 1 / 2 < r then f + 1
                        else if even f then f else f + 1)"
    unfolding round_even_def Let_def f_def [symmetric] r_def [symmetric] ..
  then show ?thesis
    unfolding z using r by (auto simp: abs_if)
qed

lemma bitlen_pos: "0 < x \<Longrightarrow> 1 \<le> bitlen x"
  using bitlen_eq_zero_iff [of x] bitlen_nonneg [of x] by linarith

lemma quotient_of_abs:
  assumes "x \<noteq> 0" and "quotient_of \<bar>x\<bar> = (p, q)"
  shows "0 < p" and "0 < q" and "\<bar>x\<bar> = of_int p / of_int q"
proof -
  show q: "0 < q" using quotient_of_denom_pos [OF assms(2)] .
  show x: "\<bar>x\<bar> = of_int p / of_int q" using quotient_of_div [OF assms(2)] .
  have "0 < \<bar>x\<bar>" using assms(1) by simp
  then have "0 < (of_int p :: rat) / of_int q" using x by simp
  then show "0 < p" using q by (simp add: zero_less_divide_iff)
qed

lemma exponent_bounds:
  assumes "x \<noteq> 0"
  shows "2 powi exponent x \<le> \<bar>x\<bar>" and "\<bar>x\<bar> < 2 powi (exponent x + 1)"
proof -
  obtain p q where pq: "quotient_of \<bar>x\<bar> = (p, q)" by (cases "quotient_of \<bar>x\<bar>")
  note a = quotient_of_abs [OF assms pq]
  define k where "k = bitlen p - bitlen q"
  have bp: "2 ^ nat (bitlen p - 1) \<le> p" "p < 2 ^ nat (bitlen p)"
    and bq: "2 ^ nat (bitlen q - 1) \<le> q" "q < 2 ^ nat (bitlen q)"
    using bitlen_bounds [OF a(1)] bitlen_bounds [OF a(2)] by simp_all
  have lp: "1 \<le> bitlen p" and lq: "1 \<le> bitlen q"
    using bitlen_pos a by simp_all
  have rp: "(2::rat) ^ nat (bitlen p - 1) \<le> of_int p" "(of_int p :: rat) < 2 ^ nat (bitlen p)"
    and rq: "(2::rat) ^ nat (bitlen q - 1) \<le> of_int q" "(of_int q :: rat) < 2 ^ nat (bitlen q)"
    using bp bq by (metis of_int_le_iff of_int_less_iff of_int_numeral of_int_power)+
  have lo: "(2::rat) powi (k - 1) \<le> \<bar>x\<bar>"
  proof -
    have "k - 1 = (bitlen p - 1) - bitlen q" by (simp add: k_def)
    then have "(2::rat) powi (k - 1) = 2 powi (bitlen p - 1) / 2 powi (bitlen q)"
      by (simp only: power_int_diff [of "2::rat", simplified])
    also have "\<dots> = 2 ^ nat (bitlen p - 1) / 2 ^ nat (bitlen q)"
      using lp lq by (simp add: power_int_def)
    also have "\<dots> \<le> of_int p / of_int q"
      using rp(1) rq(2) a(1,2) by (intro frac_le) simp_all
    finally show ?thesis using a(3) by simp
  qed
  have hi: "\<bar>x\<bar> < (2::rat) powi (k + 1)"
  proof -
    have "of_int p / of_int q < (2::rat) ^ nat (bitlen p) / 2 ^ nat (bitlen q - 1)"
      using rp(2) rq(1) a by (intro frac_less) simp_all
    also have "\<dots> = 2 powi (bitlen p) / 2 powi (bitlen q - 1)"
      using lp lq by (simp add: power_int_def)
    also have "\<dots> = 2 powi (bitlen p - (bitlen q - 1))"
      by (simp only: power_int_diff [of "2::rat", simplified])
    also have "bitlen p - (bitlen q - 1) = k + 1" by (simp add: k_def)
    finally show ?thesis using a(3) by simp
  qed
  have e: "exponent x = (if 2 powi k \<le> \<bar>x\<bar> then k else k - 1)"
    by (simp add: exponent_def pq k_def Let_def)
  show "2 powi exponent x \<le> \<bar>x\<bar>"
    using lo by (simp add: e)
  show "\<bar>x\<bar> < 2 powi (exponent x + 1)"
    using hi by (auto simp: e not_le)
qed

lemma fl_error:
  "\<bar>fl x - x\<bar> \<le> max (\<bar>x\<bar> / 2 ^ 53) (2 powi (- 1075))"
proof (cases "x = 0")
  case True
  then show ?thesis by (simp add: fl_def)
next
  case False
  define e where "e = max (exponent x) (- 1022)"
  define u :: rat where "u = 2 powi (e - 52)"
  have u: "0 < u" by (simp add: u_def)
  have f: "fl x = of_int (round_even (x / u)) * u"
    using False by (simp add: fl_def Let_def e_def u_def)
  have "fl x - x = (of_int (round_even (x / u)) - x / u) * u"
    using u by (simp add: f algebra_simps)
  then have "\<bar>fl x - x\<bar> = \<bar>of_int (round_even (x / u)) - x / u\<bar> * u"
    using u by (simp add: abs_mult)
  also have "\<dots> \<le> 1 / 2 * u"
    using round_even_error [of "x / u"] u by (intro mult_right_mono) simp_all
  finally have h: "\<bar>fl x - x\<bar> \<le> u / 2" by simp
  show ?thesis
  proof (cases "- 1022 \<le> exponent x")
    case True
    then have "u = 2 powi exponent x / 2 ^ 52"
      by (simp add: u_def e_def power_int_diff)
    also have "\<dots> \<le> \<bar>x\<bar> / 2 ^ 52"
      using exponent_bounds(1) [OF False] by (intro divide_right_mono) simp_all
    finally have "u / 2 \<le> \<bar>x\<bar> / 2 ^ 53" by simp
    with h have "\<bar>fl x - x\<bar> \<le> \<bar>x\<bar> / 2 ^ 53" by (rule order_trans)
    then show ?thesis by (rule max.coboundedI1)
  next
    case False
    then have "u = 2 powi (- 1074)" by (simp add: u_def e_def)
    then have "u / 2 = 2 powi (- 1074 - 1)"
      by (simp only: power_int_diff [of "2::rat", simplified] power_int_1_right)
    then have "u / 2 = 2 powi (- 1075)" by simp
    with h have "\<bar>fl x - x\<bar> \<le> 2 powi (- 1075)" by simp
    then show ?thesis by (rule max.coboundedI2)
  qed
qed


text \<open>
  An integer below \<open>2\<^sup>5\<^sup>3\<close> in magnitude is a double: the rounding leaves it as it is.
\<close>

lemma round_even_int: "round_even (of_int m) = m"
  by (simp add: round_even_def)

lemma fl_int:
  assumes "\<bar>n\<bar> < 2 ^ 53"
  shows "fl (of_int n) = of_int n"
proof (cases "n = 0")
  case True
  then show ?thesis by (simp add: fl_def)
next
  case False
  define x :: rat where "x = of_int n"
  have x0: "x \<noteq> 0" using False by (simp add: x_def)
  define e where "e = exponent x"
  have b: "2 powi e \<le> \<bar>x\<bar>" "\<bar>x\<bar> < 2 powi (e + 1)"
    using exponent_bounds [OF x0] by (simp_all add: e_def)
  have "1 \<le> \<bar>n\<bar>" using False by simp
  then have "(of_int 1 :: rat) \<le> of_int \<bar>n\<bar>" by (simp only: of_int_le_iff)
  then have x1: "1 \<le> \<bar>x\<bar>" by (simp add: x_def)
  have "(of_int \<bar>n\<bar> :: rat) < of_int (2 ^ 53)" using assms by (simp only: of_int_less_iff)
  then have x53: "\<bar>x\<bar> < 2 ^ 53" by (simp add: x_def)
  have e0: "0 \<le> e"
  proof (rule ccontr)
    assume "\<not> 0 \<le> e"
    then have "e + 1 \<le> 0" by simp
    then have "(2::rat) powi (e + 1) \<le> 2 powi 0" by (intro power_int_increasing) simp_all
    with b(2) x1 show False by simp
  qed
  have e52: "e \<le> 52"
  proof (rule ccontr)
    assume "\<not> e \<le> 52"
    then have "53 \<le> e" by simp
    then have "(2::rat) powi 53 \<le> 2 powi e" by (intro power_int_increasing) simp_all
    moreover have "(2::rat) powi 53 = 2 ^ 53" by (simp add: power_int_def)
    ultimately show False using b(1) x53 by linarith
  qed
  define k where "k = nat (52 - e)"
  have "e - 52 = - int k" using e52 by (simp add: k_def)
  then have u: "(2::rat) powi (e - 52) = 1 / 2 ^ k"
    by (simp add: power_int_minus divide_inverse)
  have "x / (1 / 2 ^ k) = of_int (n * 2 ^ k)" by (simp add: x_def)
  then have r: "round_even (x / (1 / 2 ^ k)) = n * 2 ^ k" by (simp only: round_even_int)
  have "max e (- 1022) = e" using e0 by simp
  then have "fl x = of_int (round_even (x / (1 / 2 ^ k))) * (1 / 2 ^ k)"
    using x0 by (simp add: fl_def Let_def e_def [symmetric] u)
  also have "\<dots> = x" unfolding r by (simp add: x_def)
  finally show ?thesis by (simp add: x_def)
qed

text \<open>
  Below \<open>2\<^sup>4\<^sup>0\<close> in magnitude the rounding moves a number by less than a thousandth.
  So the quotient of an integer by 7, which is at least a fourteenth away from a tie of
  \<^verbatim>\<open>Math.round\<close>, rounds to the same integer before and after the rounding to a double;
  and a decimal with two places compares with an integer as its nearest double does.
\<close>

lemma tiny_le: "(2::rat) powi (- 1075) \<le> 1 / 1000"
proof -
  have "(1 / 2 :: rat) ^ 1075 \<le> (1 / 2) ^ 10"
    by (rule power_decreasing) simp_all
  moreover have "(1 / 2 :: rat) ^ 10 \<le> 1 / 1000" by (simp add: power_divide)
  ultimately have "(1 / 2 :: rat) ^ 1075 \<le> 1 / 1000" by (rule order_trans)
  moreover have "(2::rat) powi (- 1075) = (1 / 2) ^ 1075"
    by (simp add: power_int_def)
  ultimately show ?thesis by (simp only:)
qed

lemma fl_close:
  assumes "\<bar>x\<bar> \<le> 2 ^ 40"
  shows "\<bar>fl x - x\<bar> \<le> 1 / 1000"
proof -
  have "\<bar>x\<bar> / 2 ^ 53 \<le> 2 ^ 40 / 2 ^ 53" using assms by (intro divide_right_mono) simp_all
  also have "\<dots> \<le> (1 / 1000 :: rat)" by simp
  finally have "max (\<bar>x\<bar> / 2 ^ 53) (2 powi (- 1075)) \<le> 1 / 1000"
    using tiny_le by simp
  with fl_error [of x] show ?thesis by linarith
qed

lemma seventh_in_doubles:
  assumes "\<bar>t\<bar> \<le> 2 ^ 40"
  shows "js_round (fl (of_int t / 7)) = js_round (of_int t / 7)"
proof -
  define y :: rat where "y = of_int t / 7"
  define n where "n = js_round y"
  have n: "of_int n \<le> y + 1 / 2" "y + 1 / 2 < of_int n + 1"
    unfolding n_def js_round_def by linarith+
  have "(of_int (14 * n) :: rat) \<le> of_int (2 * t + 7)"
    using n(1) by (simp add: y_def field_simps)
  then have i1: "14 * n \<le> 2 * t + 7" by (simp only: of_int_le_iff)
  have "(of_int (2 * t + 7) :: rat) < of_int (14 * n + 14)"
    using n(2) by (simp add: y_def field_simps)
  then have i2: "2 * t + 7 < 14 * n + 14" by (simp only: of_int_less_iff)
  have j: "14 * n + 1 \<le> 2 * t + 7" "2 * t + 7 \<le> 14 * n + 13"
    using i1 i2 by presburger+
  have "(of_int (14 * n + 1) :: rat) \<le> of_int (2 * t + 7)"
    "(of_int (2 * t + 7) :: rat) \<le> of_int (14 * n + 13)"
    using j by (simp_all only: of_int_le_iff)
  then have m: "of_int n + 1 / 14 \<le> y + 1 / 2" "y + 1 / 2 \<le> of_int n + 13 / 14"
    by (simp_all add: y_def field_simps)
  have "\<bar>y\<bar> \<le> \<bar>of_int t\<bar>" by (simp add: y_def)
  also have "\<dots> = of_int \<bar>t\<bar>" by simp
  also have "\<dots> \<le> of_int (2 ^ 40)" using assms by (simp only: of_int_le_iff)
  finally have "\<bar>y\<bar> \<le> 2 ^ 40" by simp
  then have c: "\<bar>fl y - y\<bar> \<le> 1 / 1000" by (rule fl_close)
  have "of_int n \<le> fl y + 1 / 2" "fl y + 1 / 2 < of_int n + 1"
    using m c by linarith+
  then have "js_round (fl y) = n"
    unfolding js_round_def by linarith
  then show ?thesis by (simp add: y_def n_def)
qed

lemma decimal_gt_in_doubles:
  assumes "x * 100 = of_int k" and "\<bar>x\<bar> \<le> 2 ^ 40"
  shows "(of_int n < fl x) = (of_int n < x)"
proof -
  have c: "\<bar>fl x - x\<bar> \<le> 1 / 1000" using assms(2) by (rule fl_close)
  have x: "x = of_int k / 100" using assms(1) by simp
  consider "100 * n < k" | "k = 100 * n" | "k < 100 * n" by linarith
  then show ?thesis
  proof cases
    case 1
    then have "100 * n + 1 \<le> k" by simp
    then have "(of_int (100 * n + 1) :: rat) \<le> of_int k" by (simp only: of_int_le_iff)
    then have "of_int n + 1 / 100 \<le> x" by (simp add: x field_simps)
    then show ?thesis using c by linarith
  next
    case 2
    then have e: "x = of_int n" by (simp add: x)
    have "\<bar>(of_int n :: rat)\<bar> \<le> 2 ^ 40" using assms(2) e by simp
    then have "(of_int \<bar>n\<bar> :: rat) \<le> of_int (2 ^ 40)" by simp
    then have "\<bar>n\<bar> \<le> 2 ^ 40" by (simp only: of_int_le_iff)
    then have "\<bar>n\<bar> < 2 ^ 53" by simp
    then have "fl (of_int n) = of_int n" by (rule fl_int)
    then show ?thesis by (simp add: e)
  next
    case 3
    then have "k + 1 \<le> 100 * n" by simp
    then have "(of_int (k + 1) :: rat) \<le> of_int (100 * n)" by (simp only: of_int_le_iff)
    then have "x + 1 / 100 \<le> of_int n" by (simp add: x field_simps)
    then show ?thesis using c by linarith
  qed
qed

section \<open>Dates and sums\<close>

lemma foldl_plus_sum_list:
  "foldl (\<lambda>total entry. total + f entry) a xs = a + sum_list (map f xs)"
  for a :: "'a::monoid_add"
  by (induction xs arbitrary: a) (simp_all add: add.assoc)

lemma day_window_int:
  fixes D q x :: int
  assumes "0 < D"
  shows "(D * q \<le> x \<and> x \<le> D * q + (D - 1)) \<longleftrightarrow> x div D = q"
proof
  assume h: "D * q \<le> x \<and> x \<le> D * q + (D - 1)"
  have "x = D * q + (x - D * q)" by simp
  moreover have "0 \<le> x - D * q" "x - D * q < D" using h by simp_all
  ultimately show "x div D = q" by (rule int_div_pos_eq)
next
  assume h: "x div D = q"
  have "D * (x div D) + x mod D = x" by simp
  moreover have "0 \<le> x mod D" "x mod D < D" using assms by simp_all
  ultimately show "D * q \<le> x \<and> x \<le> D * q + (D - 1)" using h by auto
qed

lemma start_of_day_eq: "startOfDay tz dt + tz = ms_per_day * localDay tz dt"
  unfolding startOfDay_def localDay_def
  by (simp add: minus_mod_eq_mult_div algebra_simps)

text \<open>The window of a date holds exactly the instants of its local calendar day.\<close>

lemma in_window_iff:
  "(startOfDay tz dt \<le> t \<and> t \<le> endOfDay tz dt) \<longleftrightarrow> localDay tz t = localDay tz dt"
proof -
  have D: "0 < ms_per_day" by (simp add: ms_per_day_def)
  have "(startOfDay tz dt \<le> t \<and> t \<le> endOfDay tz dt) \<longleftrightarrow>
        (ms_per_day * localDay tz dt \<le> t + tz
         \<and> t + tz \<le> ms_per_day * localDay tz dt + (ms_per_day - 1))"
    using start_of_day_eq [of tz dt] unfolding endOfDay_def by auto
  also have "\<dots> \<longleftrightarrow> (t + tz) div ms_per_day = localDay tz dt"
    by (rule day_window_int [OF D])
  finally show ?thesis by (simp add: localDay_def)
qed

lemma localDay_addDays: "localDay tz (addDays d i) = localDay tz d + i"
  unfolding localDay_def addDays_def ms_per_day_def
  by (simp add: algebra_simps)

section \<open>The daily balance\<close>

lemma balance_explicit:
  assumes "calculateDailyBalance tz d userId dt = Inr b"
  obtains f e g where "getDailyFoodCalories tz d userId dt = Inr f"
    and "getDailyExerciseCalories tz d userId dt = Inr e"
    and "g = getUserDailyGoal d userId"
    and "b = \<lparr> date = isoDay dt, food_calories = f, exercise_calories = e,
               net_calories = f - e, daily_goal = g, calorie_balance = g - (f - e),
               is_under_goal = (if g = 0 then True else f - e \<le> g),
               is_over_goal = (if g = 0 then False else f - e > g),
               goal_percentage =
                 (if g > 0 then js_round (fmul (fdiv (of_int (f - e)) (of_int g)) 100) else 0),
               status = (if g = 0 then NO_GOAL_SET
                         else if (if g = 0 then True else f - e \<le> g)
                              then UNDER_GOAL else OVER_GOAL),
               remaining_calories =
                 (if g > 0 \<and> (if g = 0 then True else f - e \<le> g) then g - (f - e) else 0),
               excess_calories =
                 (if g > 0 \<and> (if g = 0 then False else f - e > g)
                  then \<bar>g - (f - e)\<bar> else 0) \<rparr>"
  using assms unfolding calculateDailyBalance_def Let_def
  by (auto split: sum.splits)

lemma balance_fields:
  assumes "calculateDailyBalance tz d userId dt = Inr b"
  shows "net_calories b = food_calories b - exercise_calories b"
    and "calorie_balance b = daily_goal b - net_calories b"
    and "daily_goal b = getUserDailyGoal d userId"
    and "is_under_goal b = (daily_goal b = 0 \<or> net_calories b \<le> daily_goal b)"
    and "is_over_goal b = (daily_goal b \<noteq> 0 \<and> net_calories b > daily_goal b)"
    and "status b = (if daily_goal b = 0 then NO_GOAL_SET
                     else if is_under_goal b then UNDER_GOAL else OVER_GOAL)"
    and "goal_percentage b = (if daily_goal b > 0
           then js_round (fmul (fdiv (of_int (net_calories b)) (of_int (daily_goal b))) 100)
           else 0)"
    and "remaining_calories b =
           (if daily_goal b > 0 \<and> is_under_goal b then calorie_balance b else 0)"
    and "excess_calories b =
           (if daily_goal b > 0 \<and> is_over_goal b then \<bar>calorie_balance b\<bar> else 0)"
    and "getDailyFoodCalories tz d userId dt = Inr (food_calories b)"
    and "getDailyExerciseCalories tz d userId dt = Inr (exercise_calories b)"
proof -
  from assms obtain f e g where
    b: "b = \<lparr> date = isoDay dt, food_calories = f, exercise_calories = e,
               net_calories = f - e, daily_goal = g, calorie_balance = g - (f - e),
               is_under_goal = (if g = 0 then True else f - e \<le> g),
               is_over_goal = (if g = 0 then False else f - e > g),
               goal_percentage =
                 (if g > 0 then js_round (fmul (fdiv (of_int (f - e)) (of_int g)) 100) else 0),
               status = (if g = 0 then NO_GOAL_SET
                         else if (if g = 0 then True else f - e \<le> g)
                              then UNDER_GOAL else OVER_GOAL),
               remaining_calories =
                 (if g > 0 \<and> (if g = 0 then True else f - e \<le> g) then g - (f - e) else 0),
               excess_calories =
                 (if g > 0 \<and> (if g = 0 then False else f - e > g)
                  then \<bar>g - (f - e)\<bar> else 0) \<rparr>"
    and g: "g = getUserDailyGoal d userId"
    and f: "getDailyFoodCalories tz d userId dt = Inr f"
    and e: "getDailyExerciseCalories tz d userId dt = Inr e"
    by (rule balance_explicit) blast
  show "net_calories b = food_calories b - exercise_calories b" by (simp add: b)
  show "calorie_balance b = daily_goal b - net_calories b" by (simp add: b)
  show "daily_goal b = getUserDailyGoal d userId" by (simp add: b g)
  show "is_under_goal b = (daily_goal b = 0 \<or> net_calories b \<le> daily_goal b)"
    by (simp add: b)
  show "is_over_goal b = (daily_goal b \<noteq> 0 \<and> net_calories b > daily_goal b)"
    by (simp add: b)
  show "status b = (if daily_goal b = 0 then NO_GOAL_SET
                    else if is_under_goal b then UNDER_GOAL else OVER_GOAL)"
    by (simp add: b)
  show "goal_percentage b = (if daily_goal b > 0
          then js_round (fmul (fdiv (of_int (net_calories b)) (of_int (daily_goal b))) 100)
          else 0)"
    by (simp add: b)
  show "remaining_calories b =
          (if daily_goal b > 0 \<and> is_under_goal b then calorie_balance b else 0)"
    by (simp add: b)
  show "excess_calories b =
          (if daily_goal b > 0 \<and> is_over_goal b then \<bar>calorie_balance b\<bar> else 0)"
    by (simp add: b)
  show "getDailyFoodCalories tz d userId dt = Inr (food_calories b)" by (simp add: b f)
  show "getDailyExerciseCalories tz d userId dt = Inr (exercise_calories b)" by (simp add: b e)
qed

lemma dayDb_balance: "calculateDailyBalance 3600000 dayDb ''uidA'' 43200000 = Inr dayBalance"
  by code_simp

text \<open>
  C2, as amended. Every daily balance has status \<open>NO_GOAL_SET\<close> exactly when its goal is 0.
  When the goal is positive, the day is under goal exactly when net is at most the goal
  and over goal exactly when net exceeds it, so the two flags are complementary; the
  remaining calories are the larger of 0 and goal minus net when under goal and 0 otherwise;
  the excess is the distance of goal and net when over goal and 0 otherwise. The percentage
  is \<^verbatim>\<open>Math.round\<close> of the double that the code computes: the quotient of net and goal
  rounded to a double, times 100, rounded to a double.
\<close>

theorem daily_status:
  assumes "calculateDailyBalance tz d userId dt = Inr b"
  shows "(status b = NO_GOAL_SET \<longleftrightarrow> daily_goal b = 0)
    \<and> (daily_goal b > 0 \<longrightarrow>
         (is_under_goal b \<longleftrightarrow> net_calories b \<le> daily_goal b)
       \<and> (is_over_goal b \<longleftrightarrow> net_calories b > daily_goal b)
       \<and> (is_under_goal b \<longleftrightarrow> \<not> is_over_goal b)
       \<and> goal_percentage b =
           js_round (fl (fl (of_int (net_calories b) / of_int (daily_goal b)) * 100))
       \<and> remaining_calories b =
           (if is_under_goal b then max 0 (daily_goal b - net_calories b) else 0)
       \<and> excess_calories b =
           (if is_over_goal b then \<bar>daily_goal b - net_calories b\<bar> else 0))"
proof -
  note f = balance_fields [OF assms]
  have "status b = NO_GOAL_SET \<longleftrightarrow> daily_goal b = 0"
    by (simp add: f(6))
  moreover have "daily_goal b > 0 \<longrightarrow>
         (is_under_goal b \<longleftrightarrow> net_calories b \<le> daily_goal b)
       \<and> (is_over_goal b \<longleftrightarrow> net_calories b > daily_goal b)
       \<and> (is_under_goal b \<longleftrightarrow> \<not> is_over_goal b)"
    using f(4,5) by auto
  moreover have "daily_goal b > 0 \<longrightarrow>
        goal_percentage b =
           js_round (fl (fl (of_int (net_calories b) / of_int (daily_goal b)) * 100))"
    by (simp add: f(7) fmul_def fdiv_def)
  moreover have "daily_goal b > 0 \<longrightarrow> remaining_calories b =
           (if is_under_goal b then max 0 (daily_goal b - net_calories b) else 0)"
    using f(4) by (auto simp: f(8) f(2))
  moreover have "daily_goal b > 0 \<longrightarrow> excess_calories b =
           (if is_over_goal b then \<bar>daily_goal b - net_calories b\<bar> else 0)"
    by (simp add: f(9) f(2))
  ultimately show ?thesis by blast
qed

lemma dayDb_day3:
  "calculateDailyBalance 3600000 dayDb ''uidA'' (addDays 43200000 3) =
     Inr (mkBalance 3 2600 0 2000 (- 600) False 130 OVER_GOAL 0 600)"
  by code_simp

lemma dayDb_nobody:
  "calculateDailyBalance 3600000 dayDb ''nobody'' 43200000 =
     Inr (mkBalance 0 0 0 0 0 True 0 NO_GOAL_SET 0 0)"
  "Users_findOne dayDb ''nobody'' = Inr None"
  by code_simp+

lemma percentDb_balance:
  "calculateDailyBalance 0 percentDb ''uidA'' 0 =
     Inr (mkBalance 0 145 0 1000 855 True 14 UNDER_GOAL 855 0)"
  by code_simp

text \<open>
  Four days of the examples: one under goal, one over goal, one of a user that is not
  found, who has no goal, and the day with a net of 145 calories and a goal of 1000, whose
  percentage is 14: the double nearest to 0.145, times 100, is the double just below 14.5.
\<close>

theorem daily_status_witness:
  "calculateDailyBalance 3600000 dayDb ''uidA'' 43200000 = Inr dayBalance
   \<and> status dayBalance \<noteq> NO_GOAL_SET \<and> 0 < daily_goal dayBalance
   \<and> is_under_goal dayBalance \<and> net_calories dayBalance \<le> daily_goal dayBalance
   \<and> \<not> is_over_goal dayBalance
   \<and> goal_percentage dayBalance = js_round (fl (fl (242 / 2000) * 100))
   \<and> goal_percentage dayBalance = 12
   \<and> remaining_calories dayBalance = max 0 (2000 - 242)
   \<and> excess_calories dayBalance = 0
   \<and> calculateDailyBalance 3600000 dayDb ''uidA'' (addDays 43200000 3) =
       Inr (mkBalance 3 2600 0 2000 (- 600) False 130 OVER_GOAL 0 600)
   \<and> 0 < daily_goal (mkBalance 3 2600 0 2000 (- 600) False 130 OVER_GOAL 0 600)
   \<and> is_over_goal (mkBalance 3 2600 0 2000 (- 600) False 130 OVER_GOAL 0 600)
   \<and> \<not> is_under_goal (mkBalance 3 2600 0 2000 (- 600) False 130 OVER_GOAL 0 600)
   \<and> excess_calories (mkBalance 3 2600 0 2000 (- 600) False 130 OVER_GOAL 0 600) = \<bar>2000 - 2600\<bar>
   \<and> remaining_calories (mkBalance 3 2600 0 2000 (- 600) False 130 OVER_GOAL 0 600) = 0
   \<and> calculateDailyBalance 3600000 dayDb ''nobody'' 43200000 =
       Inr (mkBalance 0 0 0 0 0 True 0 NO_GOAL_SET 0 0)
   \<and> status (mkBalance 0 0 0 0 0 True 0 NO_GOAL_SET 0 0) = NO_GOAL_SET
   \<and> daily_goal (mkBalance 0 0 0 0 0 True 0 NO_GOAL_SET 0 0) = 0
   \<and> calculateDailyBalance 0 percentDb ''uidA'' 0 =
       Inr (mkBalance 0 145 0 1000 855 True 14 UNDER_GOAL 855 0)
   \<and> js_round (fl (fl (145 / 1000) * 100)) = 14"
proof -
  have "goal_percentage (mkBalance 0 145 0 1000 855 True 14 UNDER_GOAL 855 0) =
          js_round (fl (fl (145 / 1000) * 100))"
    using daily_status [OF percentDb_balance] by (simp add: mkBalance_def)
  then have p: "js_round (fl (fl (145 / 1000) * 100)) = 14"
    by (simp add: mkBalance_def)
  show ?thesis
    using daily_status [OF dayDb_balance] daily_status [OF dayDb_day3]
      daily_status [OF dayDb_nobody(1)] dayDb_balance dayDb_day3 dayDb_nobody(1)
      percentDb_balance p
    by (simp add: dayBalance_def mkBalance_def)
qed

text \<open>
  C2 as stated fails, read as arithmetic on the integers: with a net of 145 calories and
  a goal of 1000 the rounded value of net over goal times 100 is 15 (14.5 rounds up), and
  the balance carries 14.
\<close>

theorem daily_status_counterexample:
  "calculateDailyBalance 0 percentDb ''uidA'' 0 =
     Inr \<lparr> date = 0, food_calories = 145, exercise_calories = 0, net_calories = 145,
           daily_goal = 1000, calorie_balance = 855, is_under_goal = True,
           is_over_goal = False, goal_percentage = 14, status = UNDER_GOAL,
           remaining_calories = 855, excess_calories = 0 \<rparr>
   \<and> spec_goalPercentage 145 1000 = 15"
  by code_simp

lemma foodEntriesOfDay_eq:
  "foodEntriesOfDay tz d u dt =
     filter (\<lambda>e. ce_user_id e = IntKey (user_pk u) \<and> localDay tz (consumed_at e) = localDay tz dt)
       (calorie_entries d)"
  unfolding foodEntriesOfDay_def by (simp add: in_window_iff)

lemma getDailyFoodCalories_found:
  assumes "Users_findOne d userId = Inr (Some u)"
  shows "getDailyFoodCalories tz d userId dt =
     Inr (js_round (foldl (\<lambda>total e. fl (total + fl (of_int (calories_per_serving e)
                                                       * fl (servings_consumed e))))
            0 (foodEntriesOfDay tz d u dt)))"
  using assms by (simp add: getDailyFoodCalories_def fadd_def fmul_def)

lemma getDailyFoodCalories_absent:
  assumes "Users_findOne d userId = Inr None"
  shows "getDailyFoodCalories tz d userId dt = Inr 0"
  using assms by (simp add: getDailyFoodCalories_def)

text \<open>
  C1, as amended. The food total of a daily balance is 0 when the user is not found; for
  a user that is found it is \<^verbatim>\<open>Math.round\<close> of the sum, over the food entries stored under
  the user's integer key whose consumed-at instant lies on the local calendar day of the
  date, of calories per serving times servings consumed. No entry's product is rounded to
  an integer before the sum. The sum is the one that the code computes in doubles: the
  servings are read as the nearest double, every product is rounded to a double, and the
  products are added one after the other in the order of the entries, every partial sum
  rounded to a double. Entries of other days and of other keys are not in the sum.
\<close>

theorem daily_food_total:
  assumes "calculateDailyBalance tz d userId dt = Inr b"
  shows "(Users_findOne d userId = Inr None \<longrightarrow> food_calories b = 0)
    \<and> (\<forall>u. Users_findOne d userId = Inr (Some u) \<longrightarrow>
          food_calories b =
            js_round (foldl (\<lambda>total e. fl (total + fl (of_int (calories_per_serving e)
                                                      * fl (servings_consumed e))))
              0 (filter (\<lambda>e. ce_user_id e = IntKey (user_pk u)
                          \<and> localDay tz (consumed_at e) = localDay tz dt)
                 (calorie_entries d))))"
proof -
  note f = balance_fields(10) [OF assms]
  have "Users_findOne d userId = Inr None \<longrightarrow> food_calories b = 0"
    using f by (auto simp: getDailyFoodCalories_absent)
  moreover have "\<forall>u. Users_findOne d userId = Inr (Some u) \<longrightarrow>
          food_calories b =
            js_round (foldl (\<lambda>total e. fl (total + fl (of_int (calories_per_serving e)
                                                      * fl (servings_consumed e))))
              0 (filter (\<lambda>e. ce_user_id e = IntKey (user_pk u)
                          \<and> localDay tz (consumed_at e) = localDay tz dt)
                 (calorie_entries d)))"
    using f by (auto simp: getDailyFoodCalories_found foodEntriesOfDay_eq)
  ultimately show ?thesis by blast
qed

lemma dayDb_userA: "Users_findOne dayDb ''uidA'' = Inr (Some userA)"
  by code_simp

lemma servingDb_balance:
  "calculateDailyBalance 0 servingDb ''uidA'' 0 =
     Inr (mkBalance 0 14 0 2000 1986 True 1 UNDER_GOAL 1986 0)"
  "Users_findOne servingDb ''uidA'' = Inr (Some userA)"
  by code_simp+

text \<open>
  The day of the example: the entries of 250 times 1.5 and 333 times 0.5 calories are
  inside the window, and 541.5 rounds to 542; a user that is not found has a total of 0;
  and the entry of 25 calories and 0.58 servings gives 14, for the product of 25 and the
  double nearest to 0.58 is the double just below 14.5.
\<close>

theorem daily_food_total_witness:
  "calculateDailyBalance 3600000 dayDb ''uidA'' 43200000 = Inr dayBalance
   \<and> Users_findOne dayDb ''uidA'' = Inr (Some userA)
   \<and> filter (\<lambda>e. ce_user_id e = IntKey (user_pk userA)
                 \<and> localDay 3600000 (consumed_at e) = localDay 3600000 43200000)
        (calorie_entries dayDb) = [foodAt 1 250 (3 / 2) 1000, foodAt 1 333 (1 / 2) 82799999]
   \<and> food_calories dayBalance = js_round (fl (fl (0 + fl (250 * fl (3 / 2))) + fl (333 * fl (1 / 2))))
   \<and> food_calories dayBalance = 542
   \<and> calculateDailyBalance 3600000 dayDb ''nobody'' 43200000 =
       Inr (mkBalance 0 0 0 0 0 True 0 NO_GOAL_SET 0 0)
   \<and> Users_findOne dayDb ''nobody'' = Inr None
   \<and> food_calories (mkBalance 0 0 0 0 0 True 0 NO_GOAL_SET 0 0) = 0
   \<and> calculateDailyBalance 0 servingDb ''uidA'' 0 =
       Inr (mkBalance 0 14 0 2000 1986 True 1 UNDER_GOAL 1986 0)
   \<and> js_round (fl (0 + fl (25 * fl (58 / 100)))) = 14"
proof -
  have sel: "filter (\<lambda>e. ce_user_id e = IntKey (user_pk userA)
                 \<and> localDay 3600000 (consumed_at e) = localDay 3600000 43200000)
        (calorie_entries dayDb) = [foodAt 1 250 (3 / 2) 1000, foodAt 1 333 (1 / 2) 82799999]"
    by code_simp
  have sel2: "filter (\<lambda>e. ce_user_id e = IntKey (user_pk userA)
                 \<and> localDay 0 (consumed_at e) = localDay 0 0)
        (calorie_entries servingDb) = [foodAt 1 25 (58 / 100) 1000]"
    by code_simp
  have "food_calories dayBalance =
          js_round (foldl (\<lambda>total e. fl (total + fl (of_int (calories_per_serving e)
                                                    * fl (servings_consumed e))))
            0 [foodAt 1 250 (3 / 2) 1000, foodAt 1 333 (1 / 2) 82799999])"
    using daily_food_total [OF dayDb_balance] dayDb_userA sel by simp
  then have d1: "food_calories dayBalance =
      js_round (fl (fl (0 + fl (250 * fl (3 / 2))) + fl (333 * fl (1 / 2))))"
    by (simp add: foodAt_def)
  have "food_calories (mkBalance 0 14 0 2000 1986 True 1 UNDER_GOAL 1986 0) =
          js_round (foldl (\<lambda>total e. fl (total + fl (of_int (calories_per_serving e)
                                                    * fl (servings_consumed e))))
            0 [foodAt 1 25 (58 / 100) 1000])"
    using daily_food_total [OF servingDb_balance(1)] servingDb_balance(2) sel2 by simp
  then have d2: "js_round (fl (0 + fl (25 * fl (58 / 100)))) = 14"
    by (simp add: foodAt_def mkBalance_def)
  have d3: "food_calories dayBalance = 542" by (simp add: dayBalance_def)
  have d4: "food_calories (mkBalance 0 0 0 0 0 True 0 NO_GOAL_SET 0 0) = 0"
    using daily_food_total [OF dayDb_nobody(1)] dayDb_nobody(2) by simp
  show ?thesis
    using dayDb_balance dayDb_userA sel dayDb_nobody servingDb_balance(1) d1 d2 d3 d4
    by simp
qed

text \<open>
  C1 as stated fails: two entries of 1 calorie per serving and half a serving each give a
  daily total of 1, where rounding each entry first (1 and 1) gives 2. Every number of
  this example is a double, so no rounding to a double takes part in it.
\<close>

theorem daily_food_total_counterexample:
  "getDailyFoodCalories 0 halvesDb ''uidA'' 0 = Inr 1
   \<and> foodEntriesOfDay 0 halvesDb userA 0 = [foodAt 1 1 (1 / 2) 1000, foodAt 1 1 (1 / 2) 2000]
   \<and> map total_calories (foodEntriesOfDay 0 halvesDb userA 0) = [1, 1]
   \<and> spec_dailyFoodTotal (foodEntriesOfDay 0 halvesDb userA 0) = 2
   \<and> calculateDailyBalance 0 halvesDb ''uidA'' 0 =
       Inr \<lparr> date = 0, food_calories = 1, exercise_calories = 0, net_calories = 1,
             daily_goal = 2000, calorie_balance = 1999, is_under_goal = True,
             is_over_goal = False, goal_percentage = 0, status = UNDER_GOAL,
             remaining_calories = 1999, excess_calories = 0 \<rparr>"
  by code_simp

section \<open>The weekly balance\<close>

lemma weekDaysLoop_result:
  "weekDaysLoop tz d userId ws i acc = Inr ds \<Longrightarrow> i \<le> 7 \<Longrightarrow>
     map Inr ds = map Inr acc @ map (\<lambda>k. calculateDailyBalance tz d userId (addDays ws k)) [i..6]"
proof (induction tz d userId ws i acc rule: weekDaysLoop.induct)
  case (1 tz d userId ws i acc)
  show ?case
  proof (cases "i < 7")
    case True
    with "1.prems"(1) obtain b where
      b: "calculateDailyBalance tz d userId (addDays ws i) = Inr b"
      and rest: "weekDaysLoop tz d userId ws (i + 1) (acc @ [b]) = Inr ds"
      by (subst (asm) weekDaysLoop.simps) (auto split: sum.splits)
    have "map Inr ds = map Inr (acc @ [b])
            @ map (\<lambda>k. calculateDailyBalance tz d userId (addDays ws k)) [i + 1..6]"
      using "1.IH" [OF True b rest] True by simp
    moreover have "[i..6] = i # [i + 1..6]"
      using True by (simp add: upto_rec1)
    ultimately show ?thesis using b by simp
  next
    case False
    with "1.prems" have "i = 7" by simp
    moreover from False "1.prems"(1) have "ds = acc"
      by (subst (asm) weekDaysLoop.simps) simp
    ultimately show ?thesis by simp
  qed
qed

lemma foldl_addDay:
  "foldl addDay z ds =
     \<lparr> total_food = total_food z + sum_list (map food_calories ds),
       total_exercise = total_exercise z + sum_list (map exercise_calories ds),
       total_net = total_net z + sum_list (map net_calories ds),
       days_under_goal = days_under_goal z + int (length (filter is_under_goal ds)),
       days_over_goal = days_over_goal z + int (length (filter is_over_goal ds)) \<rparr>"
  by (induction ds arbitrary: z) (simp_all add: addDay_def)

lemma weekly_explicit:
  assumes "getWeeklyBalance tz d userId ws = Inr w"
  shows "weekDaysLoop tz d userId ws 0 [] = Inr (daily_balances w)"
    and "weekly_totals w =
           foldl addDay \<lparr> total_food = 0, total_exercise = 0, total_net = 0,
                          days_under_goal = 0, days_over_goal = 0 \<rparr> (daily_balances w)"
    and "weekly_average_net w = js_round (of_int (total_net (weekly_totals w)) / 7)"
    and "success_rate w = js_round (of_int (days_under_goal (weekly_totals w)) / 7 * 100)"
    and "week_start w = isoDay ws"
  using assms unfolding getWeeklyBalance_def Let_def
  by (auto split: sum.splits)

lemma weekly_days:
  assumes "getWeeklyBalance tz d userId ws = Inr w"
  shows "map Inr (daily_balances w) =
           map (\<lambda>k. calculateDailyBalance tz d userId (addDays ws k)) [0..6]"
  using weekDaysLoop_result [OF weekly_explicit(1) [OF assms]] by simp

lemma upto_0_6: "[0..6] = [0, 1, 2, 3, 4, 5, 6::int]"
  by code_simp

lemma weekly_length:
  assumes "getWeeklyBalance tz d userId ws = Inr w"
  shows "length (daily_balances w) = 7"
proof -
  have "length (map Inr (daily_balances w) :: (error + daily_balance) list) = 7"
    unfolding weekly_days [OF assms] by (simp add: upto_0_6)
  then show ?thesis by simp
qed

lemma weekly_day_is_balance:
  assumes "getWeeklyBalance tz d userId ws = Inr w" and "b \<in> set (daily_balances w)"
  shows "\<exists>k. calculateDailyBalance tz d userId (addDays ws k) = Inr b"
proof -
  from assms(2) have "Inr b \<in> set (map Inr (daily_balances w) :: (error + daily_balance) list)"
    by simp
  then have "Inr b \<in> set (map (\<lambda>k. calculateDailyBalance tz d userId (addDays ws k)) [0..6])"
    unfolding weekly_days [OF assms(1)] .
  then show ?thesis by auto
qed

lemma weekly_totals_eq:
  assumes "getWeeklyBalance tz d userId ws = Inr w"
  shows "weekly_totals w =
     \<lparr> total_food = sum_list (map food_calories (daily_balances w)),
       total_exercise = sum_list (map exercise_calories (daily_balances w)),
       total_net = sum_list (map net_calories (daily_balances w)),
       days_under_goal = int (length (filter is_under_goal (daily_balances w))),
       days_over_goal = int (length (filter is_over_goal (daily_balances w))) \<rparr>"
  unfolding weekly_explicit(2) [OF assms] foldl_addDay by simp

lemma share_of_seven_in_doubles:
  assumes "0 \<le> k" and "k \<le> 7"
  shows "js_round (fl (fl (of_int k / 7) * 100)) = js_round (of_int k / 7 * 100)"
proof -
  have "list_all (\<lambda>k. js_round (fl (fl (of_int k / 7) * 100)) = js_round (of_int k / 7 * 100))
          [0, 1, 2, 3, 4, 5, 6, 7]"
    by code_simp
  moreover have "k \<in> set [0, 1, 2, 3, 4, 5, 6, 7]"
    using assms by (simp add: upto_0_6 [symmetric]) presburger
  ultimately show ?thesis by (simp only: list_all_iff)
qed

text \<open>
  The two quotients of the weekly balance are written as exact quotients in
  \<^verbatim>\<open>getWeeklyBalance\<close>. In doubles they round to the same integers: the average for every
  net total below \<open>2\<^sup>4\<^sup>0\<close> in magnitude, the success rate always. The totals themselves are
  sums and differences of integers, which are exact in doubles.
\<close>

lemma weekly_quotients_in_doubles:
  assumes "getWeeklyBalance tz d userId ws = Inr w"
    and "\<bar>total_net (weekly_totals w)\<bar> \<le> 2 ^ 40"
  shows "weekly_average_net w = js_round (fl (of_int (total_net (weekly_totals w)) / 7))"
    and "success_rate w = js_round (fl (fl (of_int (days_under_goal (weekly_totals w)) / 7) * 100))"
proof -
  show "weekly_average_net w = js_round (fl (of_int (total_net (weekly_totals w)) / 7))"
    using weekly_explicit(3) [OF assms(1)] seventh_in_doubles [OF assms(2)] by simp
  have "days_under_goal (weekly_totals w) = int (length (filter is_under_goal (daily_balances w)))"
    using weekly_totals_eq [OF assms(1)] by simp
  moreover have "length (filter is_under_goal (daily_balances w)) \<le> 7"
    using weekly_length [OF assms(1)] length_filter_le [of is_under_goal "daily_balances w"]
    by simp
  ultimately have "0 \<le> days_under_goal (weekly_totals w)" "days_under_goal (weekly_totals w) \<le> 7"
    by simp_all
  then show "success_rate w =
      js_round (fl (fl (of_int (days_under_goal (weekly_totals w)) / 7) * 100))"
    using weekly_explicit(4) [OF assms(1)] share_of_seven_in_doubles by simp
qed

text \<open>
  C6. A weekly balance holds the daily balances of the seven consecutive local calendar
  days that start at the week's first date, in order; its totals of food, exercise and net
  calories are the sums of the seven daily values; its day counts are the numbers of days
  under and over goal; the weekly average is the net total over 7, rounded, and the success
  rate is the share of days under goal in percent, rounded.
\<close>

theorem weekly_balance_sums:
  assumes "getWeeklyBalance tz d userId ws = Inr w"
  shows "map Inr (daily_balances w) =
           map (\<lambda>k. calculateDailyBalance tz d userId (addDays ws k)) [0, 1, 2, 3, 4, 5, 6]
    \<and> map (localDay tz \<circ> addDays ws) [0, 1, 2, 3, 4, 5, 6] =
        map (\<lambda>k. localDay tz ws + k) [0, 1, 2, 3, 4, 5, 6]
    \<and> length (daily_balances w) = 7
    \<and> total_food (weekly_totals w) = sum_list (map food_calories (daily_balances w))
    \<and> total_exercise (weekly_totals w) = sum_list (map exercise_calories (daily_balances w))
    \<and> total_net (weekly_totals w) = sum_list (map net_calories (daily_balances w))
    \<and> days_under_goal (weekly_totals w) = int (length (filter is_under_goal (daily_balances w)))
    \<and> days_over_goal (weekly_totals w) = int (length (filter is_over_goal (daily_balances w)))
    \<and> weekly_average_net w = js_round (of_int (total_net (weekly_totals w)) / 7)
    \<and> success_rate w = js_round (of_int (days_under_goal (weekly_totals w)) / 7 * 100)"
proof -
  note e = weekly_explicit [OF assms]
  note tot = weekly_totals_eq [OF assms]
  have days: "map Inr (daily_balances w) =
           map (\<lambda>k. calculateDailyBalance tz d userId (addDays ws k)) [0, 1, 2, 3, 4, 5, 6]"
    using weekly_days [OF assms] by (simp only: upto_0_6)
  have cal: "map (localDay tz \<circ> addDays ws) [0, 1, 2, 3, 4, 5, 6] =
        map (\<lambda>k. localDay tz ws + k) [0, 1, 2, 3, 4, 5, 6]"
    by (simp add: localDay_addDays)
  show ?thesis
    using days cal weekly_length [OF assms] e(3) e(4) by (simp add: tot)
qed

lemma under_over_complement:
  assumes "calculateDailyBalance tz d userId dt = Inr b"
  shows "is_over_goal b = (\<not> is_under_goal b)"
  using balance_fields(4,5) [OF assms] by auto

lemma no_goal_is_under:
  assumes "calculateDailyBalance tz d userId dt = Inr b" and "daily_goal b = 0"
  shows "is_under_goal b \<and> \<not> is_over_goal b"
  using balance_fields(4,5) [OF assms(1)] assms(2) by simp

text \<open>
  C10. A daily balance with goal 0 is under goal and not over goal. In every weekly
  balance the days under goal and the days over goal add up to 7, every day without a
  goal is counted among the days under goal, and a user without a goal therefore has 7
  days under goal and a success rate of 100.
\<close>

theorem no_goal_counts_as_under:
  "(\<forall>b. calculateDailyBalance tz d userId dt = Inr b \<longrightarrow> daily_goal b = 0 \<longrightarrow>
        is_under_goal b \<and> \<not> is_over_goal b)
   \<and> (\<forall>w. getWeeklyBalance tz d userId ws = Inr w \<longrightarrow>
        days_under_goal (weekly_totals w) + days_over_goal (weekly_totals w) = 7
        \<and> (\<forall>b \<in> set (daily_balances w). daily_goal b = 0 \<longrightarrow> is_under_goal b \<and> \<not> is_over_goal b)
        \<and> int (length (filter (\<lambda>b. daily_goal b = 0) (daily_balances w)))
            \<le> days_under_goal (weekly_totals w)
        \<and> (getUserDailyGoal d userId = 0 \<longrightarrow>
             days_under_goal (weekly_totals w) = 7 \<and> success_rate w = 100))"
proof -
  have day: "\<forall>b. calculateDailyBalance tz d userId dt = Inr b \<longrightarrow> daily_goal b = 0 \<longrightarrow>
        is_under_goal b \<and> \<not> is_over_goal b"
    using no_goal_is_under by blast
  have week: "days_under_goal (weekly_totals w) + days_over_goal (weekly_totals w) = 7
        \<and> (\<forall>b \<in> set (daily_balances w). daily_goal b = 0 \<longrightarrow> is_under_goal b \<and> \<not> is_over_goal b)
        \<and> int (length (filter (\<lambda>b. daily_goal b = 0) (daily_balances w)))
            \<le> days_under_goal (weekly_totals w)
        \<and> (getUserDailyGoal d userId = 0 \<longrightarrow>
             days_under_goal (weekly_totals w) = 7 \<and> success_rate w = 100)"
    if w: "getWeeklyBalance tz d userId ws = Inr w" for w
  proof -
    let ?ds = "daily_balances w"
    have und: "days_under_goal (weekly_totals w) = int (length (filter is_under_goal ?ds))"
      and ovr: "days_over_goal (weekly_totals w) = int (length (filter is_over_goal ?ds))"
      and sr: "success_rate w = js_round (of_int (days_under_goal (weekly_totals w)) / 7 * 100)"
      using weekly_totals_eq [OF w] weekly_explicit(4) [OF w] by simp_all
    have each: "is_over_goal b = (\<not> is_under_goal b)"
      "daily_goal b = 0 \<longrightarrow> is_under_goal b \<and> \<not> is_over_goal b"
      "daily_goal b = getUserDailyGoal d userId"
      if "b \<in> set ?ds" for b
      using weekly_day_is_balance [OF w that] under_over_complement no_goal_is_under
        balance_fields(3) by blast+
    have "filter is_over_goal ?ds = filter (\<lambda>b. \<not> is_under_goal b) ?ds"
      using each(1) by (auto intro: filter_cong)
    then have "length (filter is_under_goal ?ds) + length (filter is_over_goal ?ds) = length ?ds"
      by (simp add: sum_length_filter_compl)
    then have seven: "days_under_goal (weekly_totals w) + days_over_goal (weekly_totals w) = 7"
      using weekly_length [OF w] und ovr by simp
    have "length (filter (\<lambda>b. daily_goal b = 0) ?ds) \<le> length (filter is_under_goal ?ds)"
    proof -
      have "filter (\<lambda>b. daily_goal b = 0) ?ds
              = filter (\<lambda>b. daily_goal b = 0) (filter is_under_goal ?ds)"
        using each(2) by (auto simp: filter_filter intro: filter_cong)
      then show ?thesis by (metis length_filter_le)
    qed
    then have cnt: "int (length (filter (\<lambda>b. daily_goal b = 0) ?ds))
                      \<le> days_under_goal (weekly_totals w)"
      using und by simp
    have all: "days_under_goal (weekly_totals w) = 7 \<and> success_rate w = 100"
      if g: "getUserDailyGoal d userId = 0"
    proof -
      have "filter is_under_goal ?ds = ?ds"
        using each(2,3) g by (auto simp: filter_id_conv)
      then have "days_under_goal (weekly_totals w) = 7"
        using und weekly_length [OF w] by simp
      moreover have "js_round (7 / 7 * 100) = 100" by code_simp
      ultimately show ?thesis using sr by simp
    qed
    show ?thesis using seven each(2) cnt all by blast
  qed
  show ?thesis using day week by blast
qed

lemma dayDb_week: "getWeeklyBalance 3600000 dayDb ''uidA'' 43200000 = Inr dayWeek"
  by code_simp

lemma noGoalDb_week: "getWeeklyBalance 3600000 noGoalDb ''uidA'' 43200000 = Inr noGoalWeek"
  by code_simp

text \<open>
  The week of the example: six days under goal and one over, 86 percent.
\<close>

theorem weekly_balance_sums_witness:
  "getWeeklyBalance 3600000 dayDb ''uidA'' 43200000 = Inr dayWeek
   \<and> length (daily_balances dayWeek) = 7
   \<and> map date (daily_balances dayWeek) = [0, 1, 2, 3, 4, 5, 6]
   \<and> total_food (weekly_totals dayWeek) = 542 + 999 + 0 + 2600 + 0 + 0 + 0
   \<and> total_exercise (weekly_totals dayWeek) = 300 + 0 + 0 + 0 + 0 + 0 + 0
   \<and> total_net (weekly_totals dayWeek) = 242 + 999 + 0 + 2600 + 0 + 0 + 0
   \<and> days_under_goal (weekly_totals dayWeek) = 6
   \<and> days_over_goal (weekly_totals dayWeek) = 1
   \<and> weekly_average_net dayWeek = js_round (3841 / 7)
   \<and> success_rate dayWeek = js_round (6 / 7 * 100)"
  using weekly_balance_sums [OF dayDb_week] dayDb_week
  by (simp add: dayWeek_def mkBalance_def)

lemma noGoalDb_goal: "getUserDailyGoal noGoalDb ''uidA'' = 0"
  by code_simp

lemma noGoalDb_day3:
  "calculateDailyBalance 3600000 noGoalDb ''uidA'' (addDays 43200000 3)
     = Inr (mkBalance 3 2600 0 0 (- 2600) True 0 NO_GOAL_SET 0 0)"
  by code_simp

text \<open>
  The same week for a user without a goal: the day with a net of 2600 calories counts as
  under goal, and the success rate is 100.
\<close>

theorem no_goal_counts_as_under_witness:
  "calculateDailyBalance 3600000 noGoalDb ''uidA'' (addDays 43200000 3)
     = Inr (mkBalance 3 2600 0 0 (- 2600) True 0 NO_GOAL_SET 0 0)
   \<and> daily_goal (mkBalance 3 2600 0 0 (- 2600) True 0 NO_GOAL_SET 0 0) = 0
   \<and> net_calories (mkBalance 3 2600 0 0 (- 2600) True 0 NO_GOAL_SET 0 0) = 2600
   \<and> is_under_goal (mkBalance 3 2600 0 0 (- 2600) True 0 NO_GOAL_SET 0 0)
   \<and> \<not> is_over_goal (mkBalance 3 2600 0 0 (- 2600) True 0 NO_GOAL_SET 0 0)
   \<and> getWeeklyBalance 3600000 noGoalDb ''uidA'' 43200000 = Inr noGoalWeek
   \<and> getUserDailyGoal noGoalDb ''uidA'' = 0
   \<and> mkBalance 3 2600 0 0 (- 2600) True 0 NO_GOAL_SET 0 0 \<in> set (daily_balances noGoalWeek)
   \<and> days_under_goal (weekly_totals noGoalWeek) + days_over_goal (weekly_totals noGoalWeek) = 7
   \<and> days_under_goal (weekly_totals noGoalWeek) = 7
   \<and> success_rate noGoalWeek = 100"
proof -
  have mem: "mkBalance 3 2600 0 0 (- 2600) True 0 NO_GOAL_SET 0 0 \<in> set (daily_balances noGoalWeek)"
    by (simp add: noGoalWeek_def)
  have g0: "daily_goal (mkBalance 3 2600 0 0 (- 2600) True 0 NO_GOAL_SET 0 0) = 0"
    and n: "net_calories (mkBalance 3 2600 0 0 (- 2600) True 0 NO_GOAL_SET 0 0) = 2600"
    by (simp_all add: mkBalance_def)
  from no_goal_counts_as_under
    [of 3600000 noGoalDb "''uidA''" "addDays 43200000 3" 43200000]
  show ?thesis
    using noGoalDb_day3 noGoalDb_week noGoalDb_goal mem g0 n by auto
qed

section \<open>A user that is not found\<close>

text \<open>
  C8. When the lookup of the user succeeds and finds no record, the daily balance is
  returned, with goal 0, status \<open>NO_GOAL_SET\<close> and no calories, for every date; the
  recommendation computation fails with the user-not-found error, whatever its options
  are.
\<close>

theorem absent_user:
  assumes "Users_findOne d userId = Inr None"
  shows "calculateDailyBalance tz d userId dt =
           Inr \<lparr> date = isoDay dt, food_calories = 0, exercise_calories = 0, net_calories = 0,
                 daily_goal = 0, calorie_balance = 0, is_under_goal = True,
                 is_over_goal = False, goal_percentage = 0, status = NO_GOAL_SET,
                 remaining_calories = 0, excess_calories = 0 \<rparr>
    \<and> getPersonalizedRecommendations d now userId limit
          = Inl (AIRecommendationError UserNotFound)"
  using assms
  by (simp add: calculateDailyBalance_def getDailyFoodCalories_def
      getDailyExerciseCalories_def getUserDailyGoal_def getPersonalizedRecommendations_def)

lemma goalDb_nobody: "Users_findOne goalDb ''nobody'' = Inr None"
  by code_simp

text \<open>A uid that no user record carries, on the example database.\<close>

theorem absent_user_witness:
  "Users_findOne goalDb ''nobody'' = Inr None
   \<and> calculateDailyBalance 3600000 goalDb ''nobody'' 43200000 =
           Inr \<lparr> date = 0, food_calories = 0, exercise_calories = 0, net_calories = 0,
                 daily_goal = 0, calorie_balance = 0, is_under_goal = True,
                 is_over_goal = False, goal_percentage = 0, status = NO_GOAL_SET,
                 remaining_calories = 0, excess_calories = 0 \<rparr>
   \<and> getPersonalizedRecommendations goalDb 43200000 ''nobody'' (Some 5)
          = Inl (AIRecommendationError UserNotFound)"
  using absent_user [OF goalDb_nobody, of 3600000 43200000 43200000 "Some 5"]
    goalDb_nobody
  by (simp add: isoDay_def ms_per_day_def)

section \<open>From food logging to the balance\<close>

text \<open>
  The scenario of C3 when the entry is stored under the user's integer key: food 1800,
  exercise 0, net 1800, under goal, 200 remaining.
\<close>

lemma balance_of_entry_under_pk:
  "calculateDailyBalance 3600000 (goalDb\<lparr>calorie_entries := [lunchEntry (IntKey 1)]\<rparr>)
       ''uidA'' 43200000 =
     Inr \<lparr> date = 0, food_calories = 1800, exercise_calories = 0, net_calories = 1800,
           daily_goal = 2000, calorie_balance = 200, is_under_goal = True,
           is_over_goal = False, goal_percentage = 90, status = UNDER_GOAL,
           remaining_calories = 200, excess_calories = 0 \<rparr>"
  by code_simp

text \<open>
  C3 fails on the code. \<^verbatim>\<open>createFoodEntry\<close> stores the entry under the Firebase uid,
  the balance reads the entries stored under the integer key of the user's record: the
  entry that user \<open>uidA\<close> logs is not counted in the same user's balance of the same day.
  The balance is the same on the table as it was before the request, which is the table
  of a database that rejects the row.
\<close>

theorem logged_food_not_counted:
  "createFoodEntry goalDb 43200000 ''uidA'' lunchRequest =
     Inr (goalDb\<lparr>calorie_entries := [lunchEntry (StrKey ''uidA'')]\<rparr>,
          lunchEntry (StrKey ''uidA''))
   \<and> calculateDailyBalance 3600000 (goalDb\<lparr>calorie_entries := [lunchEntry (StrKey ''uidA'')]\<rparr>)
       ''uidA'' 43200000 =
     Inr \<lparr> date = 0, food_calories = 0, exercise_calories = 0, net_calories = 0,
           daily_goal = 2000, calorie_balance = 2000, is_under_goal = True,
           is_over_goal = False, goal_percentage = 0, status = UNDER_GOAL,
           remaining_calories = 2000, excess_calories = 0 \<rparr>
   \<and> calculateDailyBalance 3600000 goalDb ''uidA'' 43200000 =
     Inr \<lparr> date = 0, food_calories = 0, exercise_calories = 0, net_calories = 0,
           daily_goal = 2000, calorie_balance = 2000, is_under_goal = True,
           is_over_goal = False, goal_percentage = 0, status = UNDER_GOAL,
           remaining_calories = 2000, excess_calories = 0 \<rparr>"
  by code_simp

section \<open>The calorie estimate and the suggestion\<close>

lemma fl_0: "fl 0 = 0"
  by (simp add: fl_def)

lemma js_round_0: "js_round 0 = 0"
  by code_simp

lemma statsStep_fst:
  "fst (statsStep d acc l) = fst acc + (if flaggedManual d l then 1 else 0)"
  by (cases acc)
    (simp add: statsStep_def flaggedManual_def fmul_def fdiv_def fsub_def Let_def
      split: option.splits)

lemma foldl_statsStep_fst:
  "fst (foldl (statsStep d) acc logs) = fst acc + int (length (filter (flaggedManual d) logs))"
  by (induction logs arbitrary: acc) (simp_all add: statsStep_fst)

text \<open>The query of the statistics selects the user's logs of the last 30 days.\<close>

lemma recentExercises_last30Days: "recentExercises d now pk = spec_last30Days d now pk"
  by (simp add: recentExercises_def spec_last30Days_def addDays_def ms_per_day_def)

lemma stats_total:
  assumes "reachable d"
  shows "total_workouts (getUserExerciseStats d now pk) = int (length (spec_last30Days d now pk))"
  using assms
  by (simp add: getUserExerciseStats_def zeroStats_def Let_def recentExercises_last30Days
      split: prod.splits)

lemma stats_tracker:
  assumes "reachable d"
  shows "is_likely_tracker_user (getUserExerciseStats d now pk)
           = (flaggedRate d (spec_last30Days d now pk) > 30)"
proof (cases "spec_last30Days d now pk = []")
  case True
  then show ?thesis using assms
    by (simp add: getUserExerciseStats_def zeroStats_def flaggedRate_def
        recentExercises_last30Days)
next
  case False
  obtain m t c where f: "foldl (statsStep d) (0, 0, 0) (spec_last30Days d now pk) = (m, t, c)"
    by (cases "foldl (statsStep d) (0, 0, 0) (spec_last30Days d now pk)") auto
  have "m = int (length (filter (flaggedManual d) (spec_last30Days d now pk)))"
    using foldl_statsStep_fst [of d "(0, 0, 0)" "spec_last30Days d now pk"] f by simp
  then show ?thesis using assms False f
    by (simp add: getUserExerciseStats_def flaggedRate_def Let_def fmul_def fdiv_def
        recentExercises_last30Days)
qed

lemma generateSmartSuggestion_eq:
  "generateSmartSuggestion userStats ex duration calculatedCalories =
     (if is_likely_tracker_user userStats then Some trackerSuggestion
      else if ex_category ex = cardio
              \<and> (case calories_per_minute ex of None \<Rightarrow> False | Some c \<Rightarrow> c > 10)
           then Some cardioSuggestion
      else if ex_category ex = strength \<and> duration > 20 then Some strengthSuggestion
      else if total_workouts userStats < 5 then Some newUserSuggestion
      else None)"
  by (simp add: generateSmartSuggestion_def trackerSuggestion_def cardioSuggestion_def
      strengthSuggestion_def newUserSuggestion_def Let_def)

lemma logExercise_explicit:
  assumes "logExercise d now uid rq = Inr (d', r)"
  obtains u ex where "Users_findOne d uid = Inr (Some u)"
    and "Exercises_findByPk d (rq_exercise_id rq) = Some ex"
    and "d' = d\<lparr>user_exercises := user_exercises d @ [logged r]\<rparr>"
    and "stats r = getUserExerciseStats d now (user_pk u)"
    and "preset_calories_per_min r = calories_per_minute ex"
    and "(calories_burned (logged r), calculation_method r, smart_suggestion r) =
           (if \<not> truthy (rq_calories_burned rq) \<and> truthy (rq_duration_minutes rq)
               \<and> truthy (calories_per_minute ex)
            then
              (case (calories_per_minute ex, rq_duration_minutes rq) of
                 (Some cpm, Some dur) \<Rightarrow>
                   (Some (orZero (Some (js_round (fl (fl cpm * of_int dur))))), automatic,
                    generateSmartSuggestion (getUserExerciseStats d now (user_pk u)) ex dur
                      (js_round (fl (fl cpm * of_int dur))))
               | _ \<Rightarrow> (Some (orZero (rq_calories_burned rq)), automatic, None))
            else if truthy (rq_calories_burned rq)
            then (Some (orZero (rq_calories_burned rq)), manual, None)
            else (Some (orZero (rq_calories_burned rq)), automatic, None))"
proof -
  from assms obtain u where u: "Users_findOne d uid = Inr (Some u)"
    unfolding logExercise_def by (auto split: sum.splits option.splits)
  from assms u obtain ex where ex: "Exercises_findByPk d (rq_exercise_id rq) = Some ex"
    unfolding logExercise_def by (auto split: option.splits)
  show thesis
    using assms u ex
    unfolding logExercise_def Let_def fmul_def
    by (intro that [of u ex]) (auto split: if_splits option.splits prod.splits)
qed

text \<open>
  C5, as amended. Whenever \<^verbatim>\<open>logExercise\<close> stores a log: a manual calorie value that is
  neither null nor 0 is stored as it is and the method is manual; otherwise the method is
  automatic, and the stored calories are 0 when the request has no duration or the
  exercise no rate, and else \<^verbatim>\<open>Math.round\<close> of the product that the code computes in
  doubles: the rate read as the nearest double, times the duration, rounded to a double.
\<close>

theorem calorie_estimate:
  assumes "logExercise d now uid rq = Inr (d', r)"
  shows "\<exists>ex. Exercises_findByPk d (rq_exercise_id rq) = Some ex
     \<and> user_exercises d' = user_exercises d @ [logged r]
     \<and> (\<forall>m. rq_calories_burned rq = Some m \<longrightarrow> m \<noteq> 0 \<longrightarrow>
           calories_burned (logged r) = Some m \<and> calculation_method r = manual)
     \<and> (rq_calories_burned rq = None \<or> rq_calories_burned rq = Some 0 \<longrightarrow>
           calculation_method r = automatic
           \<and> calories_burned (logged r) =
               Some (case (rq_duration_minutes rq, calories_per_minute ex) of
                       (Some dur, Some cpm) \<Rightarrow> js_round (fl (fl cpm * of_int dur))
                     | _ \<Rightarrow> 0))"
proof -
  from assms obtain u ex where u: "Users_findOne d uid = Inr (Some u)"
    and ex: "Exercises_findByPk d (rq_exercise_id rq) = Some ex"
    and d': "d' = d\<lparr>user_exercises := user_exercises d @ [logged r]\<rparr>"
    and st: "stats r = getUserExerciseStats d now (user_pk u)"
    and pre: "preset_calories_per_min r = calories_per_minute ex"
    and t: "(calories_burned (logged r), calculation_method r, smart_suggestion r) =
           (if \<not> truthy (rq_calories_burned rq) \<and> truthy (rq_duration_minutes rq)
               \<and> truthy (calories_per_minute ex)
            then
              (case (calories_per_minute ex, rq_duration_minutes rq) of
                 (Some cpm, Some dur) \<Rightarrow>
                   (Some (orZero (Some (js_round (fl (fl cpm * of_int dur))))), automatic,
                    generateSmartSuggestion (getUserExerciseStats d now (user_pk u)) ex dur
                      (js_round (fl (fl cpm * of_int dur))))
               | _ \<Rightarrow> (Some (orZero (rq_calories_burned rq)), automatic, None))
            else if truthy (rq_calories_burned rq)
            then (Some (orZero (rq_calories_burned rq)), manual, None)
            else (Some (orZero (rq_calories_burned rq)), automatic, None))"
    by (rule logExercise_explicit)
  have man: "\<forall>m. rq_calories_burned rq = Some m \<longrightarrow> m \<noteq> 0 \<longrightarrow>
           calories_burned (logged r) = Some m \<and> calculation_method r = manual"
    using t by (auto simp: truthy_def orZero_def)
  have aut: "rq_calories_burned rq = None \<or> rq_calories_burned rq = Some 0 \<longrightarrow>
           calculation_method r = automatic
           \<and> calories_burned (logged r) =
               Some (case (rq_duration_minutes rq, calories_per_minute ex) of
                       (Some dur, Some cpm) \<Rightarrow> js_round (fl (fl cpm * of_int dur))
                     | _ \<Rightarrow> 0)"
    using t
    by (auto simp: truthy_def orZero_def js_round_0 fl_0 split: option.splits if_splits)
  show ?thesis using ex d' man aut by auto
qed

text \<open>
  C9, as amended. Whenever \<^verbatim>\<open>logExercise\<close> stores a log whose calories it computes from
  the preset rate (no manual value, a duration and a rate that are neither null nor 0),
  the answer carries at most one suggestion, the first that applies of: the fitness
  tracker nudge, when the percentage of flagged logs among the user's logs of the last 30
  days exceeds 30; the high intensity cardio suggestion, for a cardio exercise with a rate
  above 10; the strength suggestion, for a strength exercise and a duration above 20; the
  new user information, with fewer than 5 logs in the last 30 days; and none otherwise.
  The logs of the last 30 days are those of the user that were performed no more than
  2592000000 milliseconds before the call. A log is flagged by the test of 5 percent as
  the code evaluates it in doubles, and the percentage of flagged logs is the double that
  the code computes.
\<close>

theorem smart_suggestion_priority:
  assumes "logExercise d now uid rq = Inr (d', r)"
    and "rq_calories_burned rq = None \<or> rq_calories_burned rq = Some 0"
    and "rq_duration_minutes rq = Some dur" and "dur \<noteq> 0"
  shows "\<exists>u ex. Users_findOne d uid = Inr (Some u)
     \<and> Exercises_findByPk d (rq_exercise_id rq) = Some ex
     \<and> (\<forall>cpm. calories_per_minute ex = Some cpm \<longrightarrow> cpm \<noteq> 0 \<longrightarrow>
          smart_suggestion r =
            (if flaggedRate d (spec_last30Days d now (user_pk u)) > 30
             then Some trackerSuggestion
             else if ex_category ex = cardio \<and> cpm > 10 then Some cardioSuggestion
             else if ex_category ex = strength \<and> dur > 20 then Some strengthSuggestion
             else if int (length (spec_last30Days d now (user_pk u))) < 5
             then Some newUserSuggestion
             else None))"
proof -
  from assms(1) obtain u ex where u: "Users_findOne d uid = Inr (Some u)"
    and ex: "Exercises_findByPk d (rq_exercise_id rq) = Some ex"
    and d': "d' = d\<lparr>user_exercises := user_exercises d @ [logged r]\<rparr>"
    and st: "stats r = getUserExerciseStats d now (user_pk u)"
    and pre: "preset_calories_per_min r = calories_per_minute ex"
    and t: "(calories_burned (logged r), calculation_method r, smart_suggestion r) =
           (if \<not> truthy (rq_calories_burned rq) \<and> truthy (rq_duration_minutes rq)
               \<and> truthy (calories_per_minute ex)
            then
              (case (calories_per_minute ex, rq_duration_minutes rq) of
                 (Some cpm, Some dur) \<Rightarrow>
                   (Some (orZero (Some (js_round (fl (fl cpm * of_int dur))))), automatic,
                    generateSmartSuggestion (getUserExerciseStats d now (user_pk u)) ex dur
                      (js_round (fl (fl cpm * of_int dur))))
               | _ \<Rightarrow> (Some (orZero (rq_calories_burned rq)), automatic, None))
            else if truthy (rq_calories_burned rq)
            then (Some (orZero (rq_calories_burned rq)), manual, None)
            else (Some (orZero (rq_calories_burned rq)), automatic, None))"
    by (rule logExercise_explicit)
  from u have up: "reachable d"
    by (auto simp: Users_findOne_def split: if_splits)
  have "smart_suggestion r =
            (if flaggedRate d (spec_last30Days d now (user_pk u)) > 30
             then Some trackerSuggestion
             else if ex_category ex = cardio \<and> cpm > 10 then Some cardioSuggestion
             else if ex_category ex = strength \<and> dur > 20 then Some strengthSuggestion
             else if int (length (spec_last30Days d now (user_pk u))) < 5
             then Some newUserSuggestion
             else None)"
    if cpm: "calories_per_minute ex = Some cpm" "cpm \<noteq> 0" for cpm
  proof -
    have "smart_suggestion r =
            generateSmartSuggestion (getUserExerciseStats d now (user_pk u)) ex dur
              (js_round (fl (fl cpm * of_int dur)))"
      using t assms(2,3,4) cpm by (auto simp: truthy_def)
    then show ?thesis
      unfolding generateSmartSuggestion_eq stats_tracker [OF up] stats_total [OF up]
      using cpm by simp
  qed
  then show ?thesis using u ex by blast
qed

lemma log_manual:
  "logExercise goalDb 43200000 ''uidA'' (logRequest 1 (Some 10) (Some 50)) =
     Inr (logOn goalDb (workoutAt 1 1 (Some 10) (Some 50) 43200000),
          answerOf (workoutAt 1 1 (Some 10) (Some 50) 43200000) manual (Some 12) None
            (statsOf 0 0 False 0))"
  by code_simp

lemma log_cardio:
  "logExercise goalDb 43200000 ''uidA'' (logRequest 1 (Some 10) None) =
     Inr (logOn goalDb (workoutAt 1 1 (Some 10) (Some 120) 43200000),
          answerOf (workoutAt 1 1 (Some 10) (Some 120) 43200000) automatic (Some 12)
            (Some cardioSuggestion) (statsOf 0 0 False 0))"
  by code_simp

lemma log_no_rate:
  "logExercise goalDb 43200000 ''uidA'' (logRequest 7 (Some 10) None) =
     Inr (logOn goalDb (workoutAt 1 7 (Some 10) (Some 0) 43200000),
          answerOf (workoutAt 1 7 (Some 10) (Some 0) 43200000) automatic None None
            (statsOf 0 0 False 0))"
  by code_simp

lemma log_strength:
  "logExercise goalDb 43200000 ''uidA'' (logRequest 3 (Some 25) None) =
     Inr (logOn goalDb (workoutAt 1 3 (Some 25) (Some 175) 43200000),
          answerOf (workoutAt 1 3 (Some 25) (Some 175) 43200000) automatic (Some 7)
            (Some strengthSuggestion) (statsOf 0 0 False 0))"
  by code_simp

lemma log_new_user:
  "logExercise goalDb 43200000 ''uidA'' (logRequest 2 (Some 10) None) =
     Inr (logOn goalDb (workoutAt 1 2 (Some 10) (Some 50) 43200000),
          answerOf (workoutAt 1 2 (Some 10) (Some 50) 43200000) automatic (Some 5)
            (Some newUserSuggestion) (statsOf 0 0 False 0))"
  by code_simp

lemma log_tracker:
  "logExercise trackerDb 43200000 ''uidA'' (logRequest 1 (Some 10) None) =
     Inr (logOn trackerDb (workoutAt 1 1 (Some 10) (Some 120) 43200000),
          answerOf (workoutAt 1 1 (Some 10) (Some 120) 43200000) automatic (Some 12)
            (Some trackerSuggestion) (statsOf 3 33 True 27))"
  by code_simp

lemma log_veteran:
  "logExercise veteranDb 43200000 ''uidA'' (logRequest 2 (Some 10) None) =
     Inr (logOn veteranDb (workoutAt 1 2 (Some 10) (Some 50) 43200000),
          answerOf (workoutAt 1 2 (Some 10) (Some 50) 43200000) automatic (Some 5)
            None (statsOf 5 0 False 0))"
  by code_simp

lemma log_decimal:
  "logExercise decimalDb 43200000 ''uidA'' (logRequest 8 (Some 50) None) =
     Inr (logOn decimalDb (workoutAt 1 8 (Some 50) (Some 14) 43200000),
          answerOf (workoutAt 1 8 (Some 50) (Some 14) 43200000) automatic (Some (29 / 100))
            (Some newUserSuggestion) (statsOf 0 0 False 0))"
  by code_simp

lemma log_border:
  "logExercise borderDb 43200000 ''uidA'' (logRequest 5 (Some 10) None) =
     Inr (logOn borderDb (workoutAt 1 5 (Some 10) (Some 30) 43200000),
          answerOf (workoutAt 1 5 (Some 10) (Some 30) 43200000) automatic (Some 3)
            (Some trackerSuggestion) (statsOf 1 100 True 11))"
  by code_simp

text \<open>
  The examples of the specification (10 minutes with a manual value of 50; 10 minutes at
  a rate of 12), an exercise without a rate, and 50 minutes at a rate of 0.29, which give
  14 calories: the double nearest to 0.29, times 50, is the double just below 14.5.
\<close>

theorem calorie_estimate_witness:
  "logExercise goalDb 43200000 ''uidA'' (logRequest 1 (Some 10) (Some 50)) =
     Inr (logOn goalDb (workoutAt 1 1 (Some 10) (Some 50) 43200000),
          answerOf (workoutAt 1 1 (Some 10) (Some 50) 43200000) manual (Some 12) None
            (statsOf 0 0 False 0))
   \<and> logExercise goalDb 43200000 ''uidA'' (logRequest 1 (Some 10) None) =
     Inr (logOn goalDb (workoutAt 1 1 (Some 10) (Some 120) 43200000),
          answerOf (workoutAt 1 1 (Some 10) (Some 120) 43200000) automatic (Some 12)
            (Some cardioSuggestion) (statsOf 0 0 False 0))
   \<and> js_round (fl (fl 12 * of_int 10)) = 120
   \<and> logExercise goalDb 43200000 ''uidA'' (logRequest 7 (Some 10) None) =
     Inr (logOn goalDb (workoutAt 1 7 (Some 10) (Some 0) 43200000),
          answerOf (workoutAt 1 7 (Some 10) (Some 0) 43200000) automatic None None
            (statsOf 0 0 False 0))
   \<and> logExercise decimalDb 43200000 ''uidA'' (logRequest 8 (Some 50) None) =
     Inr (logOn decimalDb (workoutAt 1 8 (Some 50) (Some 14) 43200000),
          answerOf (workoutAt 1 8 (Some 50) (Some 14) 43200000) automatic (Some (29 / 100))
            (Some newUserSuggestion) (statsOf 0 0 False 0))
   \<and> js_round (fl (fl (29 / 100) * of_int 50)) = 14
   \<and> Exercises_findByPk goalDb 1 = Some (catalogEntry 1 cardio beginner (Some 12) True)
   \<and> Exercises_findByPk goalDb 7 = Some (catalogEntry 7 functional advanced None True)
   \<and> Exercises_findByPk decimalDb 8 =
       Some (catalogEntry 8 flexibility beginner (Some (29 / 100)) True)"
proof -
  have f1: "Exercises_findByPk goalDb 1 = Some (catalogEntry 1 cardio beginner (Some 12) True)"
    and f7: "Exercises_findByPk goalDb 7 = Some (catalogEntry 7 functional advanced None True)"
    and f8: "Exercises_findByPk decimalDb 8 =
       Some (catalogEntry 8 flexibility beginner (Some (29 / 100)) True)"
    by code_simp+
  have "calories_burned (workoutAt 1 1 (Some 10) (Some 120) 43200000)
          = Some (js_round (fl (fl 12 * of_int 10)))"
    using calorie_estimate [OF log_cardio] f1
    by (simp add: logRequest_def answerOf_def catalogEntry_def)
  then have c1: "js_round (fl (fl 12 * of_int 10)) = 120"
    by (simp add: workoutAt_def)
  have "calories_burned (workoutAt 1 8 (Some 50) (Some 14) 43200000)
          = Some (js_round (fl (fl (29 / 100) * of_int 50)))"
    using calorie_estimate [OF log_decimal] f8
    by (simp add: logRequest_def answerOf_def catalogEntry_def)
  then have c8: "js_round (fl (fl (29 / 100) * of_int 50)) = 14"
    by (simp add: workoutAt_def)
  show ?thesis
    using log_manual log_cardio log_no_rate log_decimal f1 f7 f8 c1 c8
      calorie_estimate [OF log_manual] calorie_estimate [OF log_no_rate]
    by simp
qed

text \<open>
  C5 as stated fails, read as arithmetic on the decimal values: 50 minutes at the preset
  rate of 0.29 calories per minute are 14.5 calories, which round to 15, and the log is
  stored with 14.
\<close>

theorem calorie_estimate_counterexample:
  "logExercise decimalDb 43200000 ''uidA'' (logRequest 8 (Some 50) None) =
     Inr (logOn decimalDb (workoutAt 1 8 (Some 50) (Some 14) 43200000),
          answerOf (workoutAt 1 8 (Some 50) (Some 14) 43200000) automatic (Some (29 / 100))
            (Some newUserSuggestion) (statsOf 0 0 False 0))
   \<and> calories_burned (workoutAt 1 8 (Some 50) (Some 14) 43200000) = Some 14
   \<and> Exercises_findByPk decimalDb 8 =
       Some (catalogEntry 8 flexibility beginner (Some (29 / 100)) True)
   \<and> spec_estimate (Some (29 / 100)) (Some 50) None = (15, automatic)"
  by code_simp

text \<open>
  One log for each suggestion and one without: a user one of whose three logs of the last
  30 days is flagged (the older log and the log of the other user do not count), a cardio
  exercise at a rate of 12, a strength session of 25 minutes, a new user on a cardio
  exercise at a rate of 5, and a user with five computed logs.
\<close>

theorem smart_suggestion_priority_witness:
  "logExercise trackerDb 43200000 ''uidA'' (logRequest 1 (Some 10) None) =
     Inr (logOn trackerDb (workoutAt 1 1 (Some 10) (Some 120) 43200000),
          answerOf (workoutAt 1 1 (Some 10) (Some 120) 43200000) automatic (Some 12)
            (Some trackerSuggestion) (statsOf 3 33 True 27))
   \<and> spec_last30Days trackerDb 43200000 1 =
       [workoutAt 1 1 (Some 10) (Some 200) 2000, workoutAt 1 1 (Some 10) (Some 120) 3000,
        workoutAt 1 1 (Some 10) (Some 120) (- 2548800000)]
   \<and> filter (flaggedManual trackerDb) (spec_last30Days trackerDb 43200000 1) =
       [workoutAt 1 1 (Some 10) (Some 200) 2000]
   \<and> 30 < flaggedRate trackerDb (spec_last30Days trackerDb 43200000 1)
   \<and> logExercise goalDb 43200000 ''uidA'' (logRequest 1 (Some 10) None) =
     Inr (logOn goalDb (workoutAt 1 1 (Some 10) (Some 120) 43200000),
          answerOf (workoutAt 1 1 (Some 10) (Some 120) 43200000) automatic (Some 12)
            (Some cardioSuggestion) (statsOf 0 0 False 0))
   \<and> logExercise goalDb 43200000 ''uidA'' (logRequest 3 (Some 25) None) =
     Inr (logOn goalDb (workoutAt 1 3 (Some 25) (Some 175) 43200000),
          answerOf (workoutAt 1 3 (Some 25) (Some 175) 43200000) automatic (Some 7)
            (Some strengthSuggestion) (statsOf 0 0 False 0))
   \<and> logExercise goalDb 43200000 ''uidA'' (logRequest 2 (Some 10) None) =
     Inr (logOn goalDb (workoutAt 1 2 (Some 10) (Some 50) 43200000),
          answerOf (workoutAt 1 2 (Some 10) (Some 50) 43200000) automatic (Some 5)
            (Some newUserSuggestion) (statsOf 0 0 False 0))
   \<and> logExercise veteranDb 43200000 ''uidA'' (logRequest 2 (Some 10) None) =
     Inr (logOn veteranDb (workoutAt 1 2 (Some 10) (Some 50) 43200000),
          answerOf (workoutAt 1 2 (Some 10) (Some 50) 43200000) automatic (Some 5)
            None (statsOf 5 0 False 0))
   \<and> logExercise borderDb 43200000 ''uidA'' (logRequest 5 (Some 10) None) =
     Inr (logOn borderDb (workoutAt 1 5 (Some 10) (Some 30) 43200000),
          answerOf (workoutAt 1 5 (Some 10) (Some 30) 43200000) automatic (Some 3)
            (Some trackerSuggestion) (statsOf 1 100 True 11))
   \<and> flaggedManual borderDb (workoutAt 1 9 (Some 50) (Some 209) 2000)
   \<and> rq_calories_burned (logRequest 1 (Some 10) None) = None
   \<and> rq_duration_minutes (logRequest 1 (Some 10) None) = Some 10"
proof -
  have logs: "spec_last30Days trackerDb 43200000 1 =
       [workoutAt 1 1 (Some 10) (Some 200) 2000, workoutAt 1 1 (Some 10) (Some 120) 3000,
        workoutAt 1 1 (Some 10) (Some 120) (- 2548800000)]"
    and fla: "filter (flaggedManual trackerDb) (spec_last30Days trackerDb 43200000 1) =
       [workoutAt 1 1 (Some 10) (Some 200) 2000]"
    and rate: "30 < flaggedRate trackerDb (spec_last30Days trackerDb 43200000 1)"
    and bor: "flaggedManual borderDb (workoutAt 1 9 (Some 50) (Some 209) 2000)"
    by code_simp+
  have rq: "rq_calories_burned (logRequest 1 (Some 10) None) = None \<or>
            rq_calories_burned (logRequest 1 (Some 10) None) = Some 0"
    "rq_duration_minutes (logRequest 1 (Some 10) None) = Some 10" "(10::int) \<noteq> 0"
    by (simp_all add: logRequest_def)
  note smart_suggestion_priority [OF log_tracker rq]
  then show ?thesis
    using logs fla rate bor log_tracker log_cardio log_strength log_new_user log_veteran
      log_border rq
    by (simp add: logRequest_def)
qed

text \<open>
  C9 as stated fails, read as arithmetic on the decimal values. The only log of the user
  has 209 calories where the preset gives 4.4 times 50, which is 220: the difference is 5
  percent of the preset and not more, so no log is likely manual, the manual input rate is
  0, and the first suggestion that applies to a flexibility exercise of 10 minutes is the
  new user information. The code answers with the fitness tracker nudge: in doubles the
  product of 4.4 and 50 is just above 220, and the percentage just above 5.
\<close>

theorem smart_suggestion_priority_counterexample:
  "logExercise borderDb 43200000 ''uidA'' (logRequest 5 (Some 10) None) =
     Inr (logOn borderDb (workoutAt 1 5 (Some 10) (Some 30) 43200000),
          answerOf (workoutAt 1 5 (Some 10) (Some 30) 43200000) automatic (Some 3)
            (Some trackerSuggestion) (statsOf 1 100 True 11))
   \<and> sg_type trackerSuggestion = fitness_tracker_detected
   \<and> Exercises_findByPk borderDb 5 = Some (catalogEntry 5 flexibility beginner (Some 3) True)
   \<and> spec_last30Days borderDb 43200000 1 = [workoutAt 1 9 (Some 50) (Some 209) 2000]
   \<and> \<not> spec_likelyManual borderDb (workoutAt 1 9 (Some 50) (Some 209) 2000)
   \<and> spec_manualInputRate borderDb (spec_last30Days borderDb 43200000 1) = 0
   \<and> spec_suggestion borderDb 43200000 1 (catalogEntry 5 flexibility beginner (Some 3) True) 10
       = Some new_user_education"
  by code_simp

section \<open>The goal-based scorer\<close>

lemma indexOf_nonneg_iff: "0 \<le> indexOf xs x \<longleftrightarrow> x \<in> set xs"
  by (induction xs) (auto simp: Let_def)

lemma indexOf_first:
  "x \<in> set xs \<Longrightarrow>
     0 \<le> indexOf xs x \<and> nat (indexOf xs x) < length xs \<and> xs ! nat (indexOf xs x) = x
     \<and> (\<forall>j < nat (indexOf xs x). xs ! j \<noteq> x)"
proof (induction xs)
  case Nil
  then show ?case by simp
next
  case (Cons y ys)
  show ?case
  proof (cases "y = x")
    case True
    then show ?thesis by simp
  next
    case False
    with Cons.prems have mem: "x \<in> set ys" by simp
    define k where "k = nat (indexOf ys x)"
    have ih: "0 \<le> indexOf ys x" "k < length ys" "ys ! k = x" "\<forall>j < k. ys ! j \<noteq> x"
      using Cons.IH [OF mem] by (simp_all add: k_def)
    have e: "indexOf (y # ys) x = indexOf ys x + 1"
      using False ih(1) by (simp add: Let_def)
    have n: "nat (indexOf (y # ys) x) = Suc k"
      unfolding e k_def using ih(1) by linarith
    have "0 \<le> indexOf (y # ys) x" using e ih(1) by simp
    moreover have "nat (indexOf (y # ys) x) < length (y # ys)"
      unfolding n using ih(2) by simp
    moreover have "(y # ys) ! nat (indexOf (y # ys) x) = x"
      unfolding n using ih(3) by simp
    moreover have "\<forall>j < nat (indexOf (y # ys) x). (y # ys) ! j \<noteq> x"
    proof (intro allI impI)
      fix j assume "j < nat (indexOf (y # ys) x)"
      then have j: "j < Suc k" unfolding n .
      show "(y # ys) ! j \<noteq> x"
      proof (cases j)
        case 0
        then show ?thesis using False by simp
      next
        case (Suc j')
        then show ?thesis using j ih(4) by simp
      qed
    qed
    ultimately show ?thesis by blast
  qed
qed

lemma levelMap_spec: "levelMap a = spec_expectedDifficulty a"
  by (cases a) (simp_all add: spec_expectedDifficulty_def)

lemma goalScore_spec:
  assumes "ex_category ex \<in> set (priorities cfg)"
  shows "goalScore cfg u ex =
     spec_goalScore cfg (case activity_level u of None \<Rightarrow> moderately_active | Some a \<Rightarrow> a) ex
       (nat (indexOf (priorities cfg) (ex_category ex)))"
proof -
  have "0 \<le> indexOf (priorities cfg) (ex_category ex)"
    using indexOf_first [OF assms] by simp
  then obtain k where k: "indexOf (priorities cfg) (ex_category ex) = int k"
    using nonneg_int_cases by blast
  show ?thesis
    unfolding goalScore_def spec_goalScore_def Let_def levelMap_spec k
    by simp
qed

lemma slice0_pos: "0 \<le> n \<Longrightarrow> slice0 n xs = take (nat n) xs"
  by (simp add: slice0_def)

lemma sorted_desc_sort_key:
  fixes f :: "'a \<Rightarrow> 'b::linordered_idom"
  shows "sorted_wrt (\<lambda>a b. f b \<le> f a) (sort_key (\<lambda>r. - f r) xs)"
proof -
  have "sorted (map (\<lambda>r. - f r) (sort_key (\<lambda>r. - f r) xs))"
    by (rule sorted_sort_key)
  then show ?thesis
    by (simp add: sorted_map)
qed

lemma limitOr_cases:
  assumes "limit = None \<and> n = 8 \<or> limit = Some 0 \<and> n = 8 \<or> limit = Some (int n) \<and> 0 < n"
  shows "slice0 (limitOr limit 8) xs = take n xs"
  using assms by (auto simp: limitOr_def slice0_def)

text \<open>
  C7. The goal-based scorer ranks exactly the active catalogue entries whose category is
  in the priority list of the user's goal (the list of \<open>improve_fitness\<close> when the user
  has no goal). The score of an entry whose category stands at position \<open>i\<close> of that list is
  20 times (length of the list minus \<open>i\<close>), plus 25 with calorie focus and a rate above
  8, plus 30 with strength focus and a strength exercise, plus 15 when the difficulty is
  the one expected of the user's activity level (moderately active when the user has
  none). The ranking is by falling score, and the result is its first \<open>n\<close> entries,
  where \<open>n\<close> is the limit, or 8 when the limit is absent or 0.
\<close>

theorem goal_based_recommendations:
  assumes "cfg = (case fitness_goal u of None \<Rightarrow> goalMappings improve_fitness
                  | Some g \<Rightarrow> goalMappings g)"
    and "a = (case activity_level u of None \<Rightarrow> moderately_active | Some l \<Rightarrow> l)"
    and "cands = filter (\<lambda>ex. is_active ex \<and> ex_category ex \<in> set (priorities cfg)) (exercises d)"
    and "limit = None \<and> n = 8 \<or> limit = Some 0 \<and> n = 8 \<or> limit = Some (int n) \<and> 0 < n"
  shows "\<exists>ranked.
           mset (map item ranked) = mset cands
         \<and> (\<forall>r \<in> set ranked. \<exists>i < length (priorities cfg).
               priorities cfg ! i = ex_category (item r)
             \<and> (\<forall>j < i. priorities cfg ! j \<noteq> ex_category (item r))
             \<and> ai_score r = spec_goalScore cfg a (item r) i)
         \<and> sorted_wrt (\<lambda>x y. ai_score y \<le> ai_score x) ranked
         \<and> getGoalBasedRecommendations d u limit = take n ranked"
proof -
  define found where
    "found = filter (\<lambda>ex. ex_category ex \<in> set (priorities cfg) \<and> is_active ex) (exercises d)"
  define scoredExercises where
    "scoredExercises = map (\<lambda>ex. \<lparr> item = ex, ai_score = goalScore cfg u ex \<rparr>) found"
  define ranked where "ranked = sort_key (\<lambda>r. - ai_score r) scoredExercises"
  have cfg: "goalConfigOf u = cfg"
    by (simp add: goalConfigOf_def assms(1))
  have found: "found = cands"
    unfolding found_def assms(3) by (rule filter_cong) auto
  have "mset ranked = mset scoredExercises"
    unfolding ranked_def by simp
  then have "mset (map item ranked) = mset (map item scoredExercises)"
    by (metis mset_map)
  also have "map item scoredExercises = found"
    unfolding scoredExercises_def by (simp add: comp_def)
  finally have m: "mset (map item ranked) = mset cands"
    using found by simp
  have sc: "\<exists>i < length (priorities cfg).
               priorities cfg ! i = ex_category (item r)
             \<and> (\<forall>j < i. priorities cfg ! j \<noteq> ex_category (item r))
             \<and> ai_score r = spec_goalScore cfg a (item r) i"
    if "r \<in> set ranked" for r
  proof -
    from that have "r \<in> set scoredExercises"
      unfolding ranked_def by simp
    then obtain ex where ex: "ex \<in> set found" and r: "r = \<lparr> item = ex, ai_score = goalScore cfg u ex \<rparr>"
      unfolding scoredExercises_def by auto
    from ex have c: "ex_category ex \<in> set (priorities cfg)"
      unfolding found_def by simp
    let ?i = "nat (indexOf (priorities cfg) (ex_category ex))"
    have "?i < length (priorities cfg)" "priorities cfg ! ?i = ex_category ex"
      "\<forall>j < ?i. priorities cfg ! j \<noteq> ex_category ex"
      using indexOf_first [OF c] by simp_all
    moreover have "ai_score r = spec_goalScore cfg a (item r) ?i"
      using goalScore_spec [OF c, of u] by (simp add: r assms(2))
    ultimately show ?thesis using r by auto
  qed
  have so: "sorted_wrt (\<lambda>x y. ai_score y \<le> ai_score x) ranked"
    unfolding ranked_def by (rule sorted_desc_sort_key)
  have "getGoalBasedRecommendations d u limit = slice0 (limitOr limit 8) ranked"
    unfolding getGoalBasedRecommendations_def Let_def cfg ranked_def scoredExercises_def found_def
    by simp
  then have "getGoalBasedRecommendations d u limit = take n ranked"
    using limitOr_cases [OF assms(4)] by simp
  with m sc so show ?thesis by blast
qed

text \<open>
  The user of the example wants to lose weight and is moderately active: four entries
  are candidates, with scores 65, 40, 60 and 20, and a limit of 3 keeps 65, 60 and 40.
\<close>

theorem goal_based_recommendations_witness:
  "getGoalBasedRecommendations goalDb userA (Some 3) =
     [scored 65 (catalogEntry 1 cardio beginner (Some 12) True),
      scored 60 (catalogEntry 4 functional intermediate (Some 10) True),
      scored 40 (catalogEntry 2 cardio beginner (Some 5) True)]
   \<and> goalMappings lose_weight =
       (case fitness_goal userA of None \<Rightarrow> goalMappings improve_fitness | Some g \<Rightarrow> goalMappings g)
   \<and> moderately_active =
       (case activity_level userA of None \<Rightarrow> moderately_active | Some l \<Rightarrow> l)
   \<and> [catalogEntry 1 cardio beginner (Some 12) True, catalogEntry 2 cardio beginner (Some 5) True,
       catalogEntry 4 functional intermediate (Some 10) True,
       catalogEntry 7 functional advanced None True] =
       filter (\<lambda>ex. is_active ex \<and> ex_category ex \<in> set (priorities (goalMappings lose_weight)))
         (exercises goalDb)
   \<and> spec_goalScore (goalMappings lose_weight) moderately_active
        (catalogEntry 1 cardio beginner (Some 12) True) 0 = 65
   \<and> spec_goalScore (goalMappings lose_weight) moderately_active
        (catalogEntry 4 functional intermediate (Some 10) True) 1 = 60
   \<and> (\<exists>ranked. mset (map item ranked) =
          mset [catalogEntry 1 cardio beginner (Some 12) True,
                catalogEntry 2 cardio beginner (Some 5) True,
                catalogEntry 4 functional intermediate (Some 10) True,
                catalogEntry 7 functional advanced None True]
        \<and> sorted_wrt (\<lambda>x y. ai_score y \<le> ai_score x) ranked
        \<and> getGoalBasedRecommendations goalDb userA (Some 3) = take 3 ranked)"
proof -
  have ev: "getGoalBasedRecommendations goalDb userA (Some 3) =
     [scored 65 (catalogEntry 1 cardio beginner (Some 12) True),
      scored 60 (catalogEntry 4 functional intermediate (Some 10) True),
      scored 40 (catalogEntry 2 cardio beginner (Some 5) True)]"
    by code_simp
  have h1: "goalMappings lose_weight =
       (case fitness_goal userA of None \<Rightarrow> goalMappings improve_fitness | Some g \<Rightarrow> goalMappings g)"
    by (simp add: userA_def)
  have h2: "moderately_active =
       (case activity_level userA of None \<Rightarrow> moderately_active | Some l \<Rightarrow> l)"
    by (simp add: userA_def)
  have h3: "[catalogEntry 1 cardio beginner (Some 12) True, catalogEntry 2 cardio beginner (Some 5) True,
       catalogEntry 4 functional intermediate (Some 10) True,
       catalogEntry 7 functional advanced None True] =
       filter (\<lambda>ex. is_active ex \<and> ex_category ex \<in> set (priorities (goalMappings lose_weight)))
         (exercises goalDb)"
    by code_simp
  have h4: "(Some 3 :: int option) = None \<and> (3::nat) = 8 \<or> Some 3 = Some (0::int) \<and> (3::nat) = 8
            \<or> Some 3 = Some (int 3) \<and> (0::nat) < 3"
    by simp
  have s1: "spec_goalScore (goalMappings lose_weight) moderately_active
        (catalogEntry 1 cardio beginner (Some 12) True) 0 = 65"
    and s4: "spec_goalScore (goalMappings lose_weight) moderately_active
        (catalogEntry 4 functional intermediate (Some 10) True) 1 = 60"
    by code_simp+
  from goal_based_recommendations [OF h1 h2 h3 h4]
  have "\<exists>ranked. mset (map item ranked) =
          mset [catalogEntry 1 cardio beginner (Some 12) True,
                catalogEntry 2 cardio beginner (Some 5) True,
                catalogEntry 4 functional intermediate (Some 10) True,
                catalogEntry 7 functional advanced None True]
        \<and> sorted_wrt (\<lambda>x y. ai_score y \<le> ai_score x) ranked
        \<and> getGoalBasedRecommendations goalDb userA (Some 3) = take 3 ranked"
    by blast
  with ev h1 h2 h3 s1 s4 show ?thesis by blast
qed

section \<open>Fusion\<close>

lemma dedupFrom_props:
  "distinct (map rec_id (dedupFrom seen rs))
   \<and> (\<forall>r \<in> set (dedupFrom seen rs).
         rec_id r \<notin> seen \<and> find (\<lambda>x. rec_id x = rec_id r) rs = Some r)"
proof (induction rs arbitrary: seen)
  case Nil
  then show ?case by simp
next
  case (Cons r rs)
  show ?case
  proof (cases "rec_id r \<in> seen")
    case True
    then have e: "dedupFrom seen (r # rs) = dedupFrom seen rs" by simp
    have "find (\<lambda>x. rec_id x = rec_id y) (r # rs) = Some y \<and> rec_id y \<notin> seen"
      if "y \<in> set (dedupFrom seen rs)" for y
    proof -
      from Cons.IH [of seen] that have y: "rec_id y \<notin> seen"
        "find (\<lambda>x. rec_id x = rec_id y) rs = Some y" by auto
      with True have "rec_id r \<noteq> rec_id y" by auto
      with y show ?thesis by simp
    qed
    then show ?thesis unfolding e using Cons.IH [of seen] by blast
  next
    case False
    let ?seen = "insert (rec_id r) seen"
    have e: "dedupFrom seen (r # rs) = r # dedupFrom ?seen rs" using False by simp
    note ih = Cons.IH [of ?seen]
    have tail: "find (\<lambda>x. rec_id x = rec_id y) (r # rs) = Some y \<and> rec_id y \<notin> seen
                \<and> rec_id y \<noteq> rec_id r"
      if "y \<in> set (dedupFrom ?seen rs)" for y
    proof -
      from ih that have y: "rec_id y \<notin> ?seen"
        "find (\<lambda>x. rec_id x = rec_id y) rs = Some y" by auto
      then show ?thesis by auto
    qed
    have "rec_id r \<notin> set (map rec_id (dedupFrom ?seen rs))"
    proof
      assume "rec_id r \<in> set (map rec_id (dedupFrom ?seen rs))"
      then obtain y where "y \<in> set (dedupFrom ?seen rs)" "rec_id y = rec_id r" by auto
      with tail show False by blast
    qed
    then have "distinct (map rec_id (dedupFrom seen (r # rs)))"
      unfolding e using ih by simp
    moreover have "\<forall>y \<in> set (dedupFrom seen (r # rs)).
         rec_id y \<notin> seen \<and> find (\<lambda>x. rec_id x = rec_id y) (r # rs) = Some y"
      unfolding e using tail False by auto
    ultimately show ?thesis by blast
  qed
qed

lemma deduplicate_distinct: "distinct (map rec_id (deduplicateRecommendations rs))"
  unfolding deduplicateRecommendations_def using dedupFrom_props [of "{}" rs] by blast

lemma deduplicate_first:
  "r \<in> set (deduplicateRecommendations rs) \<Longrightarrow> find (\<lambda>x. rec_id x = rec_id r) rs = Some r"
  unfolding deduplicateRecommendations_def using dedupFrom_props [of "{}" rs] by blast

lemma set_slice0: "set (slice0 n xs) \<subseteq> set xs"
  by (auto simp: slice0_def dest: in_set_takeD)

lemma fused_members:
  assumes "f \<in> set (fuseRecommendations rs)"
  shows "tagged f \<in> set (deduplicateRecommendations (allRecs rs)) \<and> f = finalize (tagged f)"
proof -
  from assms have "f \<in> set (map finalize (deduplicateRecommendations (allRecs rs)))"
    unfolding fuseRecommendations_def Let_def using set_slice0 by fastforce
  then show ?thesis by (auto simp: finalize_def)
qed

lemma fused_distinct: "distinct (map (rec_id \<circ> tagged) (fuseRecommendations rs))"
proof -
  let ?u = "deduplicateRecommendations (allRecs rs)"
  let ?s = "sort_key (\<lambda>r. - final_ai_score r) (map finalize ?u)"
  have "mset (map (rec_id \<circ> tagged) ?s) = mset (map (rec_id \<circ> tagged) (map finalize ?u))"
    by (metis mset_map mset_sort)
  also have "map (rec_id \<circ> tagged) (map finalize ?u) = map rec_id ?u"
    by (simp add: comp_def finalize_def)
  finally have "distinct (map (rec_id \<circ> tagged) ?s) = distinct (map rec_id ?u)"
    by (rule mset_eq_imp_distinct_iff)
  then have "distinct (map (rec_id \<circ> tagged) ?s)"
    using deduplicate_distinct by simp
  then have "distinct (take 10 (map (rec_id \<circ> tagged) ?s))"
    by (rule distinct_take)
  then show ?thesis
    by (simp add: fuseRecommendations_def Let_def slice0_def take_map)
qed

lemma fused_length: "length (fuseRecommendations rs) \<le> 10"
  by (simp add: fuseRecommendations_def Let_def slice0_def)

lemma fused_sorted:
  "sorted_wrt (\<lambda>x y. final_ai_score y \<le> final_ai_score x) (fuseRecommendations rs)"
  unfolding fuseRecommendations_def Let_def slice0_def
  by (simp add: sorted_wrt_take sorted_desc_sort_key)

lemma weight_bounds:
  "0 \<le> fl (35 / 100) \<and> fl (35 / 100) \<le> 2 / 5"
  "0 \<le> fl (25 / 100) \<and> fl (25 / 100) \<le> 2 / 5"
  "0 \<le> fl (20 / 100) \<and> fl (20 / 100) \<le> 2 / 5"
  "0 \<le> fl (15 / 100) \<and> fl (15 / 100) \<le> 2 / 5"
  "0 \<le> fl (5 / 100) \<and> fl (5 / 100) \<le> 2 / 5"
  by code_simp+

text \<open>
  A score that is not negative is not raised by the weighting: the rounded product with a
  weight of at most 0.4 is at most the score, also when the product is rounded to a
  double first.
\<close>

lemma js_round_fl_le:
  assumes "0 \<le> x" and "0 \<le> w" and "w \<le> 2 / 5"
  shows "of_int (js_round (fl (x * w))) \<le> x"
proof -
  define y where "y = x * w"
  have y0: "0 \<le> y" using assms by (simp add: y_def)
  have yx: "y \<le> x * (2 / 5)"
    unfolding y_def using assms by (intro mult_left_mono) auto
  have tiny: "(2::rat) powi (- 1075) \<le> 1 / 100"
    using tiny_le by linarith
  have "\<bar>fl y - y\<bar> \<le> max (\<bar>y\<bar> / 2 ^ 53) (2 powi (- 1075))"
    by (rule fl_error)
  also have "\<dots> \<le> y / 100 + 1 / 100"
  proof -
    have "\<bar>y\<bar> / 2 ^ 53 \<le> y / 100" using y0 by simp
    then show ?thesis using tiny y0 by simp
  qed
  finally have up: "fl y \<le> y + y / 100 + 1 / 100" by linarith
  show ?thesis
  proof (cases "1 \<le> x")
    case True
    have "fl y + 1 / 2 \<le> x" using up yx True by linarith
    moreover have "of_int (js_round (fl y)) \<le> fl y + 1 / 2"
      unfolding js_round_def by (rule of_int_floor_le)
    ultimately show ?thesis unfolding y_def by linarith
  next
    case False
    then have "fl y + 1 / 2 < 1" using up yx by linarith
    then have "js_round (fl y) < 1"
      unfolding js_round_def by (simp add: floor_less_iff)
    then have "js_round (fl y) \<le> 0" by simp
    then have "of_int (js_round (fl y)) \<le> (0::rat)" by simp
    then show ?thesis unfolding y_def using assms(1) by linarith
  qed
qed

lemma allRecs_weight:
  assumes "r \<in> set (allRecs rs)"
  shows "weight r = fl (case source r of goal_based \<Rightarrow> 35 / 100 | progressive \<Rightarrow> 25 / 100
                         | behavioral \<Rightarrow> 20 / 100 | balance \<Rightarrow> 15 / 100 | adaptive \<Rightarrow> 5 / 100)"
  using assms by (auto simp: allRecs_def tag_def)

lemma find_append_Some: "find P xs = Some x \<Longrightarrow> find P (xs @ ys) = Some x"
  by (induction xs) (auto split: if_splits)

lemma allRecs_goal_first:
  assumes "g \<in> set (goalBased rs)"
  shows "\<exists>r. find (\<lambda>x. rec_id x = ex_id (item g)) (allRecs rs) = Some r \<and> source r = goal_based"
proof -
  let ?P = "\<lambda>x. rec_id x = ex_id (item g)"
  let ?G = "map (tag goal_based (fl (35 / 100))) (goalBased rs)"
  have "\<exists>x \<in> set ?G. ?P x"
    using assms by (auto simp: tag_def rec_id_def)
  then obtain r where r: "find ?P ?G = Some r"
    by (meson find_None_iff not_Some_eq)
  then obtain i where "i < length ?G" "r = ?G ! i"
    by (auto simp: find_Some_iff)
  then have "source r = goal_based" by (simp add: tag_def)
  moreover have "find ?P (allRecs rs) = Some r"
    unfolding allRecs_def by (rule find_append_Some [OF r])
  ultimately show ?thesis by blast
qed

text \<open>
  What \<^verbatim>\<open>fuseRecommendations\<close> returns on any five lists: no two entries have the same
  exercise id; every entry is the first of its id in the concatenation of the five
  lists, so an id that the goal-based list holds keeps the goal-based source; there are at
  most 10 entries, in the order of falling final score; and every final score is
  \<^verbatim>\<open>Math.round\<close> of the double product of the raw score and the weight of the source, which
  is at most the raw score when that is not negative. The function does not receive the
  options of the request: the cut is at 10 entries whatever limit was requested.
\<close>

lemma fuseRecommendations_list:
  "distinct (map (rec_id \<circ> tagged) (fuseRecommendations rs))
   \<and> length (fuseRecommendations rs) \<le> 10
   \<and> sorted_wrt (\<lambda>x y. final_ai_score y \<le> final_ai_score x) (fuseRecommendations rs)
   \<and> (\<forall>f \<in> set (fuseRecommendations rs).
         find (\<lambda>r. rec_id r = rec_id (tagged f)) (allRecs rs) = Some (tagged f)
       \<and> ((\<exists>g \<in> set (goalBased rs). ex_id (item g) = rec_id (tagged f))
            \<longrightarrow> source (tagged f) = goal_based)
       \<and> weight (tagged f) =
           fl (case source (tagged f) of goal_based \<Rightarrow> 35 / 100 | progressive \<Rightarrow> 25 / 100
               | behavioral \<Rightarrow> 20 / 100 | balance \<Rightarrow> 15 / 100 | adaptive \<Rightarrow> 5 / 100)
       \<and> final_ai_score f = js_round (fl (ai_score (base (tagged f)) * weight (tagged f)))
       \<and> (0 \<le> ai_score (base (tagged f))
            \<longrightarrow> of_int (final_ai_score f) \<le> ai_score (base (tagged f))))"
proof -
  have each: "find (\<lambda>r. rec_id r = rec_id (tagged f)) (allRecs rs) = Some (tagged f)
       \<and> ((\<exists>g \<in> set (goalBased rs). ex_id (item g) = rec_id (tagged f))
            \<longrightarrow> source (tagged f) = goal_based)
       \<and> weight (tagged f) =
           fl (case source (tagged f) of goal_based \<Rightarrow> 35 / 100 | progressive \<Rightarrow> 25 / 100
               | behavioral \<Rightarrow> 20 / 100 | balance \<Rightarrow> 15 / 100 | adaptive \<Rightarrow> 5 / 100)
       \<and> final_ai_score f = js_round (fl (ai_score (base (tagged f)) * weight (tagged f)))
       \<and> (0 \<le> ai_score (base (tagged f))
            \<longrightarrow> of_int (final_ai_score f) \<le> ai_score (base (tagged f)))"
    if f: "f \<in> set (fuseRecommendations rs)" for f
  proof -
    from f have mem: "tagged f \<in> set (deduplicateRecommendations (allRecs rs))"
      and fin: "f = finalize (tagged f)"
      using fused_members [of f rs] by simp_all
    have first: "find (\<lambda>r. rec_id r = rec_id (tagged f)) (allRecs rs) = Some (tagged f)"
      by (rule deduplicate_first [OF mem])
    then have inall: "tagged f \<in> set (allRecs rs)"
      by (auto simp: find_Some_iff)
    have goalwins: "source (tagged f) = goal_based"
      if "\<exists>g \<in> set (goalBased rs). ex_id (item g) = rec_id (tagged f)"
    proof -
      from that obtain g where g: "g \<in> set (goalBased rs)" "ex_id (item g) = rec_id (tagged f)"
        by blast
      from allRecs_goal_first [OF g(1)] obtain r where
        "find (\<lambda>x. rec_id x = ex_id (item g)) (allRecs rs) = Some r" "source r = goal_based"
        by blast
      with first g(2) show ?thesis by simp
    qed
    have w: "weight (tagged f) =
           fl (case source (tagged f) of goal_based \<Rightarrow> 35 / 100 | progressive \<Rightarrow> 25 / 100
               | behavioral \<Rightarrow> 20 / 100 | balance \<Rightarrow> 15 / 100 | adaptive \<Rightarrow> 5 / 100)"
      by (rule allRecs_weight [OF inall])
    have wb: "0 \<le> weight (tagged f)" "weight (tagged f) \<le> 2 / 5"
      unfolding w using weight_bounds by (cases "source (tagged f)"; simp)+
    have sc: "final_ai_score f = js_round (fl (ai_score (base (tagged f)) * weight (tagged f)))"
      by (subst fin) (simp add: finalize_def fmul_def)
    have le: "of_int (final_ai_score f) \<le> ai_score (base (tagged f))"
      if "0 \<le> ai_score (base (tagged f))"
      unfolding sc by (rule js_round_fl_le [OF that wb])
    show ?thesis using first goalwins w sc le by blast
  qed
  show ?thesis
    using fused_distinct [of rs] fused_length [of rs] fused_sorted [of rs] each by blast
qed

text \<open>
  The recommendation computation of a user that is found never reaches the fusion: the
  balance scorer raises for every history, and the progressive scorer raises before it
  when the user has 3 or more logs in the last 30 days.
\<close>

lemma recommendations_raise:
  assumes "Users_findOne d uid = Inr (Some u)"
  shows "getPersonalizedRecommendations d now uid limit =
     Inl (AIRecommendationError
            (NotAFunction
               (if length (getUserExerciseHistory d now (user_pk u)) < 3
                then ''analyzeMuscleGroupBalance'' else ''analyzeProgression'')))"
  using assms
  by (simp add: getPersonalizedRecommendations_def getProgressiveOverloadRecommendations_def
      getBehavioralRecommendations_def getBalanceAndRecoveryRecommendations_def Let_def)

lemma recommendations_never_returned:
  "getPersonalizedRecommendations d now uid limit \<noteq> Inr res"
proof (cases "Users_findOne d uid")
  case (Inl e)
  then show ?thesis by (simp add: getPersonalizedRecommendations_def)
next
  case (Inr found)
  show ?thesis
  proof (cases found)
    case None
    with Inr show ?thesis by (simp add: getPersonalizedRecommendations_def)
  next
    case (Some u)
    with Inr show ?thesis using recommendations_raise [of d uid u now limit] by simp
  qed
qed

text \<open>
  C4 fails on the code. For the user of the example, who is found and has a goal, and a
  catalogue of which the goal-based scorer ranks four entries under a limit of 5, the
  recommendation computation raises: \<^verbatim>\<open>getBalanceAndRecoveryRecommendations\<close> calls
  \<^verbatim>\<open>this.analyzeMuscleGroupBalance\<close>, which the class does not define, and the error is
  wrapped and thrown to the caller. With five logs in the last 30 days the call of
  \<^verbatim>\<open>this.analyzeProgression\<close> raises first. No fused list is returned.
\<close>

theorem recommendations_not_returned:
  "Users_findOne goalDb ''uidA'' = Inr (Some userA)
   \<and> map (ex_id \<circ> item) (getGoalBasedRecommendations goalDb userA (Some 5)) = [1, 4, 2, 7]
   \<and> getPersonalizedRecommendations goalDb 43200000 ''uidA'' (Some 5) =
       Inl (AIRecommendationError (NotAFunction ''analyzeMuscleGroupBalance''))
   \<and> length (getUserExerciseHistory veteranDb 43200000 1) = 5
   \<and> getPersonalizedRecommendations veteranDb 43200000 ''uidA'' None =
       Inl (AIRecommendationError (NotAFunction ''analyzeProgression''))"
  by code_simp

end
